theory Spec2Isabelle
  imports Complex_Main "HOL-Library.Char_ord" "HOL-Library.List_Lexorder" "HOL-Library.Sublist"
    "HOL-Library.AList"
begin

section \<open>Data model\<close>

text \<open>
  The TypeScript type \<open>number\<close> is modelled by \<open>real\<close> for coordinates, angles and
  sizes, and by \<open>nat\<close> for the transaction counters, which \<open>buildInteractions\<close> only
  ever produces by incrementing from zero. NaN and the infinities are outside the model.
  Record fields keep the source's names; where a name is shared by two interfaces or
  clashes with a HOL constant it carries a short prefix.
\<close>

record Camera =
  tiltX :: real
  rotationY :: real

text \<open>The object \<open>{x, y, z}\<close> returned by \<open>projectOrbitPoint\<close>.\<close>

record Projected =
  proj_x :: real
  proj_y :: real
  proj_z :: real

section \<open>Projection math (canvas/planets.ts)\<close>

text \<open>
  \<open>projectOrbitPoint\<close>, statement by statement: the flat circle, the two plane
  rotations, the two camera rotations, the translation.
\<close>

definition projectOrbitPoint ::
  "real \<Rightarrow> real \<Rightarrow> real \<Rightarrow> real \<Rightarrow> real \<Rightarrow> real \<Rightarrow> Camera \<Rightarrow> Projected" where
  "projectOrbitPoint angle orbitRadius planeTiltX planeTiltZ centerX centerY camera =
    (let x0 = cos angle * orbitRadius;
         y0 = sin angle * orbitRadius;
         z0 = 0;
         c1 = cos planeTiltX; s1 = sin planeTiltX;
         y1 = y0 * c1 - z0 * s1;
         z1 = y0 * s1 + z0 * c1;
         c2 = cos planeTiltZ; s2 = sin planeTiltZ;
         x2 = x0 * c2 - y1 * s2;
         y2 = x0 * s2 + y1 * c2;
         c3 = cos (rotationY camera); s3 = sin (rotationY camera);
         x3 = x2 * c3 - z1 * s3;
         z3 = x2 * s3 + z1 * c3;
         c4 = cos (tiltX camera); s4 = sin (tiltX camera);
         y4 = y2 * c4 - z3 * s4;
         z4 = y2 * s4 + z3 * c4
     in \<lparr>proj_x = centerX + x3, proj_y = centerY + y4, proj_z = z4\<rparr>)"

subsection \<open>The pipeline as the specification words it\<close>

text \<open>
  The specification describes six steps. Each rotation is the standard rotation of the
  plane spanned by the two affected axes, \<open>(a, b) \<mapsto> (a cos t - b sin t, a sin t + b cos t)\<close>.
\<close>

type_synonym vec3 = "real \<times> real \<times> real"

definition rotate_plane :: "real \<Rightarrow> real \<times> real \<Rightarrow> real \<times> real" where
  "rotate_plane t ab = (fst ab * cos t - snd ab * sin t, fst ab * sin t + snd ab * cos t)"

definition place_on_ring :: "real \<Rightarrow> real \<Rightarrow> vec3" where
  "place_on_ring angle r = (cos angle * r, sin angle * r, 0)"

fun rotate_about_X :: "real \<Rightarrow> vec3 \<Rightarrow> vec3" where
  "rotate_about_X t (vx, vy, vz) =
     (vx, fst (rotate_plane t (vy, vz)), snd (rotate_plane t (vy, vz)))"

fun rotate_about_Z :: "real \<Rightarrow> vec3 \<Rightarrow> vec3" where
  "rotate_about_Z t (vx, vy, vz) =
     (fst (rotate_plane t (vx, vy)), snd (rotate_plane t (vx, vy)), vz)"

fun rotate_about_Y :: "real \<Rightarrow> vec3 \<Rightarrow> vec3" where
  "rotate_about_Y t (vx, vy, vz) =
     (fst (rotate_plane t (vx, vz)), vy, snd (rotate_plane t (vx, vz)))"

definition post_camera :: "real \<Rightarrow> real \<Rightarrow> real \<Rightarrow> real \<Rightarrow> Camera \<Rightarrow> vec3" where
  "post_camera angle r planeTiltX planeTiltZ camera =
     rotate_about_X (tiltX camera)
       (rotate_about_Y (rotationY camera)
         (rotate_about_Z planeTiltZ
           (rotate_about_X planeTiltX (place_on_ring angle r))))"

fun translate_xy :: "real \<Rightarrow> real \<Rightarrow> vec3 \<Rightarrow> Projected" where
  "translate_xy centerX centerY (vx, vy, vz) =
     \<lparr>proj_x = centerX + vx, proj_y = centerY + vy, proj_z = vz\<rparr>"


section \<open>Wheel zoom (canvas/renderer.ts, setupInteraction)\<close>

text \<open>
  The wheel listener. Only \<open>zoom\<close> is read and written, so the handler is a function
  from the old zoom and the event's \<open>deltaY\<close> to the new zoom. \<open>createRenderer\<close>
  starts with \<open>zoom: 1\<close>.
\<close>

definition initial_zoom :: real where
  "initial_zoom = 1"

definition onWheel :: "real \<Rightarrow> real \<Rightarrow> real" where
  "onWheel zoom deltaY =
     (let zoomFactor = (if deltaY < 0 then 1.08 else 1 / 1.08)
      in max 0.3 (min 8 (zoom * zoomFactor)))"

text \<open>A sequence of wheel events, oldest first.\<close>

definition wheel_events :: "real list \<Rightarrow> real" where
  "wheel_events deltas = foldl onWheel initial_zoom deltas"

section \<open>Interaction records and bodies (types.ts)\<close>

record WalletInteraction =
  address :: string
  label :: "string option"
  totalValueUsd :: real
  txCount :: nat
  sentCount :: nat
  receivedCount :: nat
  chains :: "string list"
  primaryChain :: string
  firstInteraction :: string
  lastInteraction :: string

text \<open>
  \<open>Planet\<close>. The source's fields \<open>size\<close>, \<open>x\<close>, \<open>y\<close>, \<open>z\<close> are
  \<open>body_size\<close>, \<open>pos_x\<close>, \<open>pos_y\<close>, \<open>pos_z\<close> here.
\<close>

record Planet =
  interaction :: WalletInteraction
  orbitRadius :: real
  angle :: real
  angularSpeed :: real
  body_size :: real
  color :: string
  glowColor :: string
  pos_x :: real
  pos_y :: real
  pos_z :: real
  hovered :: bool
  planeTiltX :: real
  planeTiltZ :: real

section \<open>Chain tables (canvas/planets.ts)\<close>

definition CHAIN_COLORS :: "(string \<times> string \<times> string) list" where
  "CHAIN_COLORS =
    [(''eth-mainnet'', ''#627EEA'', ''rgba(98, 126, 234, 0.4)''),
     (''matic-mainnet'', ''#8247E5'', ''rgba(130, 71, 229, 0.4)''),
     (''polygon-mainnet'', ''#8247E5'', ''rgba(130, 71, 229, 0.4)''),
     (''arbitrum-mainnet'', ''#28A0F0'', ''rgba(40, 160, 240, 0.4)''),
     (''base-mainnet'', ''#0052FF'', ''rgba(0, 82, 255, 0.4)''),
     (''optimism-mainnet'', ''#FF0420'', ''rgba(255, 4, 32, 0.4)''),
     (''bsc-mainnet'', ''#F0B90B'', ''rgba(240, 185, 11, 0.4)''),
     (''avalanche-mainnet'', ''#E84142'', ''rgba(232, 65, 66, 0.4)''),
     (''fantom-mainnet'', ''#1969FF'', ''rgba(25, 105, 255, 0.4)''),
     (''default'', ''#4ECDC4'', ''rgba(78, 205, 196, 0.4)'')]"

text \<open>Each plane is the pair \<open>(tiltX, tiltZ)\<close>.\<close>

definition CHAIN_PLANES :: "(string \<times> real \<times> real) list" where
  "CHAIN_PLANES =
    [(''eth-mainnet'', 0, 0),
     (''base-mainnet'', pi * 0.38, 0),
     (''bsc-mainnet'', pi * 0.25, pi * 0.5),
     (''matic-mainnet'', pi * 0.35, pi * 0.33),
     (''polygon-mainnet'', pi * 0.35, pi * 0.33),
     (''arbitrum-mainnet'', pi * 0.2, pi * 0.67),
     (''optimism-mainnet'', pi * 0.42, pi * 0.17),
     (''avalanche-mainnet'', pi * 0.15, pi * 0.83),
     (''fantom-mainnet'', pi * 0.3, pi * 0.5)]"

definition DEFAULT_PLANE :: "real \<times> real" where
  "DEFAULT_PLANE = (pi * 0.1, 0)"

text \<open>
  \<open>TABLE[chain] ?? fallback\<close>. The tables are plain objects; the names an object
  inherits from its prototype (\<open>constructor\<close>, \<open>toString\<close>, ...) are not chain
  identifiers and are outside the model.
\<close>

definition getChainColor :: "string \<Rightarrow> string \<times> string" where
  "getChainColor ch =
     (case map_of CHAIN_COLORS ch of
        Some c \<Rightarrow> c
      | None \<Rightarrow> (''#4ECDC4'', ''rgba(78, 205, 196, 0.4)''))"

definition getChainPlane :: "string \<Rightarrow> real \<times> real" where
  "getChainPlane ch =
     (case map_of CHAIN_PLANES ch of Some pl \<Rightarrow> pl | None \<Rightarrow> DEFAULT_PLANE)"

section \<open>Body creation (canvas/planets.ts, createPlanets)\<close>

text \<open>
  \<open>Math.max(...interactions.map(w => w.txCount))\<close>. The callback that evaluates it
  only runs for an element of \<open>interactions\<close>, so the list is never empty there.
\<close>

definition maxTxCount :: "WalletInteraction list \<Rightarrow> nat" where
  "maxTxCount interactions = Max (set (map txCount interactions))"

text \<open>\<open>maxTx || 1\<close>: zero is falsy.\<close>

definition or_one :: "nat \<Rightarrow> nat" where
  "or_one m = (if m = 0 then 1 else m)"

text \<open>
  Division of two numbers as the source computes it: the quotient when the divisor is
  not zero. \<open>None\<close> stands for the results that are not finite numbers and so have no
  value in \<open>real\<close> (NaN for 0/0, an infinity for any other division by zero).
\<close>

definition js_div :: "real \<Rightarrow> real \<Rightarrow> real option" where
  "js_div a b = (if b = 0 then None else Some (a / b))"

text \<open>
  The three lines that compute \<open>size\<close>: \<open>maxTx\<close>, \<open>sizeRatio\<close>, \<open>size\<close>. The size is
  \<open>None\<close> when the division does not give a finite number.
\<close>

definition planetSize :: "WalletInteraction list \<Rightarrow> WalletInteraction \<Rightarrow> real option" where
  "planetSize interactions w =
    (let maxTx = maxTxCount interactions;
         sizeRatio = js_div (real (txCount w)) (real (or_one maxTx))
     in map_option (\<lambda>q. 6 + q * 18) sizeRatio)"

text \<open>
  \<open>Math.random()\<close> is the parameter \<open>rnd\<close>: \<open>rnd k\<close> is the value of the k-th
  call. The callback of \<open>interactions.map\<close> draws twice for each record (angle, then
  angular speed), so record \<open>i\<close> uses the draws \<open>2 i\<close> and \<open>2 i + 1\<close>.
  The field \<open>body_size\<close> is a real number, so a size that is not a finite number has no
  value in it; \<open>planetSize\<close> is never \<open>None\<close> on a record of the list (proved
  below), and the alternative written for that case is never taken.
\<close>

definition createPlanet ::
  "(nat \<Rightarrow> real) \<Rightarrow> WalletInteraction list \<Rightarrow> real \<Rightarrow> real \<Rightarrow> real \<Rightarrow> real \<Rightarrow>
   nat \<times> WalletInteraction \<Rightarrow> Planet" where
  "createPlanet rnd interactions centerX centerY minOrbit orbitStep ix =
    (let i = fst ix;
         w = snd ix;
         radius = minOrbit + orbitStep * real i;
         ang = (real i / real (length interactions)) * pi * 2 + rnd (2 * i) * 0.5;
         angSpeed = (0.15 + rnd (2 * i + 1) * 0.1) / (real i + 1);
         sz = planetSize interactions w;
         colors = getChainColor (primaryChain w);
         plane = getChainPlane (primaryChain w)
     in \<lparr>interaction = w,
         orbitRadius = radius,
         angle = ang,
         angularSpeed = angSpeed,
         body_size = (case sz of Some sv \<Rightarrow> sv | None \<Rightarrow> 0),
         color = fst colors,
         glowColor = snd colors,
         pos_x = centerX + cos ang * radius,
         pos_y = centerY + sin ang * radius,
         pos_z = 0,
         hovered = False,
         planeTiltX = fst plane,
         planeTiltZ = snd plane\<rparr>)"

text \<open>
  \<open>createPlanets\<close>. The radii are computed in exact reals here and in rounded
  double-precision arithmetic in the source; what is proved about ring keys below is
  therefore proved for every body within 0.01 of the ones created here.
\<close>

definition createPlanets ::
  "(nat \<Rightarrow> real) \<Rightarrow> WalletInteraction list \<Rightarrow> real \<Rightarrow> real \<Rightarrow> real \<Rightarrow> real \<Rightarrow> Planet list" where
  "createPlanets rnd interactions centerX centerY width height =
    (let minOrbit = 100;
         maxOrbit = min (height * 0.42) 500;
         orbitStep = (if length interactions > 1
                      then (maxOrbit - minOrbit) / real (length interactions - 1)
                      else 0)
     in map (createPlanet rnd interactions centerX centerY minOrbit orbitStep)
          (enumerate 0 interactions))"

section \<open>Orbit paths (canvas/orbits.ts)\<close>

subsection \<open>Number.prototype.toFixed\<close>

text \<open>
  \<open>x.toFixed(f)\<close> for \<open>|x| < 10^21\<close> (beyond that JavaScript switches to exponent
  notation; radii and tilts are far below): a minus sign if \<open>x < 0\<close>, then the integer
  \<open>n\<close> nearest to \<open>|x| * 10^f\<close> (the larger one on a tie) written in decimal, padded
  with zeros to at least \<open>f + 1\<close> digits, with a point before the last \<open>f\<close> digits.
\<close>

definition digit_char :: "nat \<Rightarrow> char" where
  "digit_char d = ''0123456789'' ! d"

fun decimal :: "nat \<Rightarrow> string" where
  "decimal n = (if n < 10 then [digit_char n]
                else decimal (n div 10) @ [digit_char (n mod 10)])"

declare decimal.simps [simp del]

definition nearest_scaled :: "nat \<Rightarrow> real \<Rightarrow> nat" where
  "nearest_scaled f v = nat \<lfloor>\<bar>v\<bar> * 10 ^ f + 1 / 2\<rfloor>"

definition toFixed :: "nat \<Rightarrow> real \<Rightarrow> string" where
  "toFixed f v =
    (let s = (if v < 0 then ''-'' else []);
         m = decimal (nearest_scaled f v);
         k = length m;
         m = (if k \<le> f then replicate (f + 1 - k) (CHR ''0'') @ m else m);
         k = length m
     in if f \<noteq> 0 then s @ take (k - f) m @ ''.'' @ drop (k - f) m else s @ m)"

text \<open>
  Reading a rendering back, for the proofs about keys: the digits of a string and the
  number they denote.
\<close>

definition digit_val :: "char \<Rightarrow> nat" where
  "digit_val c = of_char c - 48"

definition num_val :: "string \<Rightarrow> nat" where
  "num_val s = foldl (\<lambda>acc c. acc * 10 + digit_val c) 0 s"

definition is_digit :: "char \<Rightarrow> bool" where
  "is_digit c = (c \<in> set ''0123456789'')"

subsection \<open>drawOrbits\<close>

definition ORBIT_SEGMENTS :: nat where
  "ORBIT_SEGMENTS = 120"

text \<open>The deduplication key of a body's ring.\<close>

definition ringKey :: "Planet \<Rightarrow> string" where
  "ringKey planet =
     toFixed 1 (orbitRadius planet) @ ''_'' @ toFixed 3 (planeTiltX planet) @ ''_'' @
     toFixed 3 (planeTiltZ planet)"

text \<open>\<open>disabledChains?.has(chain) ?? false\<close>, with \<open>None\<close> for an absent set.\<close>

definition chainDisabled :: "string set option \<Rightarrow> string \<Rightarrow> bool" where
  "chainDisabled disabledChains ch =
     (case disabledChains of None \<Rightarrow> False | Some d \<Rightarrow> ch \<in> d)"

text \<open>The 121 sample points of a ring, \<open>i = 0 .. ORBIT_SEGMENTS\<close>.\<close>

definition ringPoints :: "Planet \<Rightarrow> real \<Rightarrow> real \<Rightarrow> Camera \<Rightarrow> Projected list" where
  "ringPoints planet centerX centerY camera =
     map (\<lambda>i. projectOrbitPoint ((real i / real ORBIT_SEGMENTS) * pi * 2) (orbitRadius planet)
                 (planeTiltX planet) (planeTiltZ planet) centerX centerY camera)
         [0 ..< ORBIT_SEGMENTS + 1]"

text \<open>
  The loop of \<open>drawOrbits\<close> with its set \<open>drawn\<close> of keys. The result lists, in
  drawing order, the rings that are drawn: the body whose ring it is and the sampled
  points the segments connect. A key is added to \<open>drawn\<close> before the disabled test.
\<close>

fun drawOrbits_loop ::
  "real \<Rightarrow> real \<Rightarrow> Camera \<Rightarrow> string set option \<Rightarrow> string set \<Rightarrow> Planet list \<Rightarrow>
   (Planet \<times> Projected list) list" where
  "drawOrbits_loop centerX centerY camera disabledChains drawn [] = []"
| "drawOrbits_loop centerX centerY camera disabledChains drawn (planet # rest) =
    (let key = ringKey planet in
     if key \<in> drawn then drawOrbits_loop centerX centerY camera disabledChains drawn rest
     else if chainDisabled disabledChains (primaryChain (interaction planet))
       then drawOrbits_loop centerX centerY camera disabledChains (insert key drawn) rest
       else (planet, ringPoints planet centerX centerY camera)
            # drawOrbits_loop centerX centerY camera disabledChains (insert key drawn) rest)"

definition drawOrbits ::
  "Planet list \<Rightarrow> real \<Rightarrow> real \<Rightarrow> Camera \<Rightarrow> string set option \<Rightarrow> (Planet \<times> Projected list) list" where
  "drawOrbits planets centerX centerY camera disabledChains =
     drawOrbits_loop centerX centerY camera disabledChains {} planets"

subsection \<open>Bodies up to rounding\<close>

text \<open>
  The source computes radii and tilts in double-precision arithmetic, the definitions
  above in exact reals; the two differ by rounding errors far below 0.01.
  \<open>closeBody eps q p\<close>: body \<open>q\<close> is on the chain of body \<open>p\<close> and differs from it by at
  most \<open>eps\<close> in radius and in each tilt.
\<close>

definition closeBody :: "real \<Rightarrow> Planet \<Rightarrow> Planet \<Rightarrow> bool" where
  "closeBody eps q p =
     (primaryChain (interaction q) = primaryChain (interaction p)
      \<and> \<bar>orbitRadius q - orbitRadius p\<bar> \<le> eps
      \<and> \<bar>planeTiltX q - planeTiltX p\<bar> \<le> eps
      \<and> \<bar>planeTiltZ q - planeTiltZ p\<bar> \<le> eps)"

section \<open>Body update and draw order (canvas/planets.ts, drawPlanets)\<close>

text \<open>
  The first loop of \<open>drawPlanets\<close>: advance the angle by the fixed step, project, store
  the projection in the body.
\<close>

definition advancePlanet :: "real \<Rightarrow> real \<Rightarrow> Camera \<Rightarrow> Planet \<Rightarrow> Planet" where
  "advancePlanet centerX centerY camera planet =
    (let ang = angle planet + angularSpeed planet * 0.016;
         proj = projectOrbitPoint ang (orbitRadius planet) (planeTiltX planet)
                  (planeTiltZ planet) centerX centerY camera
     in planet\<lparr>angle := ang, pos_x := proj_x proj, pos_y := proj_y proj, pos_z := proj_z proj\<rparr>)"

text \<open>
  \<open>sorted.sort((a, b) => b.z - a.z)\<close>: \<open>Array.prototype.sort\<close> is stable, so this is the
  stable sort by descending depth, that is, by ascending \<open>- z\<close>.
\<close>

definition depthSort :: "Planet list \<Rightarrow> Planet list" where
  "depthSort ps = sort_key (\<lambda>p. - pos_z p) ps"

text \<open>What the second loop computes for a body it draws.\<close>

record BodyDraw =
  drawn_planet :: Planet
  depthAlpha :: real
  drawn_radius :: real

definition drawBody :: "Planet \<Rightarrow> BodyDraw" where
  "drawBody planet =
    (let dAlpha = max 0.4 (1 - pos_z planet / 600);
         depthScale = 0.8 + 0.2 * dAlpha
     in \<lparr>drawn_planet = planet, depthAlpha = dAlpha,
         drawn_radius = body_size planet * depthScale\<rparr>)"

text \<open>
  \<open>drawPlanets\<close> returns the bodies as the first loop leaves them (the array is
  mutated in place, in its own order) and the draws of the second loop, in order.
\<close>

definition drawPlanets ::
  "Planet list \<Rightarrow> real \<Rightarrow> real \<Rightarrow> Camera \<Rightarrow> string set option \<Rightarrow> Planet list \<times> BodyDraw list" where
  "drawPlanets planets centerX centerY camera disabledChains =
    (let moved = map (advancePlanet centerX centerY camera) planets;
         sorted_ps = depthSort moved
     in (moved,
         map drawBody
           (filter (\<lambda>p. \<not> chainDisabled disabledChains (primaryChain (interaction p)))
              sorted_ps)))"

section \<open>Motion particles (canvas/ships.ts)\<close>

record TrailPoint =
  tp_x :: real
  tp_y :: real
  alpha :: real

datatype Direction = outbound | inbound

text \<open>\<open>Ship\<close>. The source's field \<open>color\<close> is \<open>ship_color\<close> here.\<close>

record Ship =
  fromX :: real
  fromY :: real
  toX :: real
  toY :: real
  progress :: real
  speed :: real
  ship_color :: string
  trail :: "TrailPoint list"
  direction :: Direction
  chain :: string
  activationTime :: real

subsection \<open>createShips\<close>

text \<open>
  \<open>new Date(s).getTime()\<close> is the parameter \<open>getTime\<close>; the optional
  \<open>timelineRange\<close> is an optional pair \<open>(start, end)\<close>.
\<close>

definition activationOf :: "(string \<Rightarrow> real) \<Rightarrow> (real \<times> real) option \<Rightarrow> Planet \<Rightarrow> real" where
  "activationOf getTime timelineRange planet =
    (case timelineRange of
       None \<Rightarrow> 0
     | Some se \<Rightarrow>
        (let firstDate = getTime (firstInteraction (interaction planet));
             range = snd se - fst se
         in if range > 0 then max 0 (min 1 ((firstDate - fst se) / range)) else 0))"

text \<open>
  The two object literals. Each draws twice from \<open>Math.random\<close>, first for
  \<open>progress\<close>, then for \<open>speed\<close>; \<open>k\<close> is the number of draws made before.
\<close>

definition outboundShip :: "(nat \<Rightarrow> real) \<Rightarrow> nat \<Rightarrow> real \<Rightarrow> real \<Rightarrow> Planet \<Rightarrow> real \<Rightarrow> Ship" where
  "outboundShip rnd k centerX centerY planet act =
    \<lparr>fromX = centerX, fromY = centerY, toX = pos_x planet, toY = pos_y planet,
     progress = rnd k, speed = 0.003 + rnd (k + 1) * 0.004,
     ship_color = ''#ff9944'', trail = [], direction = outbound,
     chain = primaryChain (interaction planet), activationTime = act\<rparr>"

definition inboundShip :: "(nat \<Rightarrow> real) \<Rightarrow> nat \<Rightarrow> real \<Rightarrow> real \<Rightarrow> Planet \<Rightarrow> real \<Rightarrow> Ship" where
  "inboundShip rnd k centerX centerY planet act =
    \<lparr>fromX = pos_x planet, fromY = pos_y planet, toX = centerX, toY = centerY,
     progress = rnd k, speed = 0.003 + rnd (k + 1) * 0.004,
     ship_color = ''#44ccff'', trail = [], direction = inbound,
     chain = primaryChain (interaction planet), activationTime = act\<rparr>"

text \<open>The ships one body contributes: its outbound ships, then its inbound ships.\<close>

definition shipsOfPlanet ::
  "(nat \<Rightarrow> real) \<Rightarrow> (string \<Rightarrow> real) \<Rightarrow> real \<Rightarrow> real \<Rightarrow> (real \<times> real) option \<Rightarrow> nat \<Rightarrow>
   Planet \<Rightarrow> Ship list" where
  "shipsOfPlanet rnd getTime centerX centerY timelineRange k planet =
    (let outboundCount = min (sentCount (interaction planet)) 3;
         inboundCount = min (receivedCount (interaction planet)) 3;
         act = activationOf getTime timelineRange planet
     in map (\<lambda>i. outboundShip rnd (k + 2 * i) centerX centerY planet act) [0 ..< outboundCount]
        @ map (\<lambda>i. inboundShip rnd (k + 2 * outboundCount + 2 * i) centerX centerY planet act)
            [0 ..< inboundCount])"

fun createShips_loop ::
  "(nat \<Rightarrow> real) \<Rightarrow> (string \<Rightarrow> real) \<Rightarrow> real \<Rightarrow> real \<Rightarrow> (real \<times> real) option \<Rightarrow> nat \<Rightarrow>
   Planet list \<Rightarrow> Ship list" where
  "createShips_loop rnd getTime centerX centerY timelineRange k [] = []"
| "createShips_loop rnd getTime centerX centerY timelineRange k (planet # rest) =
    (let mine = shipsOfPlanet rnd getTime centerX centerY timelineRange k planet
     in mine @ createShips_loop rnd getTime centerX centerY timelineRange
                 (k + 2 * length mine) rest)"

definition createShips ::
  "(nat \<Rightarrow> real) \<Rightarrow> (string \<Rightarrow> real) \<Rightarrow> Planet list \<Rightarrow> real \<Rightarrow> real \<Rightarrow>
   (real \<times> real) option \<Rightarrow> Ship list" where
  "createShips rnd getTime planets centerX centerY timelineRange =
     createShips_loop rnd getTime centerX centerY timelineRange 0 planets"

subsection \<open>updateShips and reassociateShips\<close>

text \<open>
  \<open>planets[idx % planets.length]\<close>: for an empty array the index is NaN and the read
  gives \<open>undefined\<close>.
\<close>

definition planetAt :: "Planet list \<Rightarrow> nat \<Rightarrow> Planet option" where
  "planetAt planets idx =
     (if planets = [] then None else Some (planets ! (idx mod length planets)))"

text \<open>
  The endpoint assignment \<open>if (planet) { ... }\<close>, which \<open>updateShips\<close> and
  \<open>reassociateShips\<close> both contain.
\<close>

definition aimAt :: "real \<Rightarrow> real \<Rightarrow> Planet option \<Rightarrow> Ship \<Rightarrow> Ship" where
  "aimAt centerX centerY planet ship =
    (case planet of
       None \<Rightarrow> ship
     | Some p \<Rightarrow>
        (if direction ship = outbound
         then ship\<lparr>fromX := centerX, fromY := centerY, toX := pos_x p, toY := pos_y p\<rparr>
         else ship\<lparr>fromX := pos_x p, fromY := pos_y p, toX := centerX, toY := centerY\<rparr>))"

text \<open>The body of the loop of \<open>updateShips\<close> for one ship.\<close>

definition moveShip :: "real \<Rightarrow> real \<Rightarrow> bool \<Rightarrow> Planet option \<Rightarrow> Ship \<Rightarrow> Ship" where
  "moveShip centerX centerY trailsEnabled planet ship0 =
    (let advanced = progress ship0 + speed ship0;
         ship1 = (if advanced > 1 then ship0\<lparr>progress := 0, trail := []\<rparr>
                  else ship0\<lparr>progress := advanced\<rparr>);
         ship = aimAt centerX centerY planet ship1;
         t = progress ship;
         midX = (fromX ship + toX ship) / 2;
         midY = (fromY ship + toY ship) / 2;
         dx = toX ship - fromX ship;
         dy = toY ship - fromY ship;
         perpX = - dy * 0.15;
         perpY = dx * 0.15;
         controlX = midX + perpX;
         controlY = midY + perpY;
         hx = (1 - t) * (1 - t) * fromX ship + 2 * (1 - t) * t * controlX + t * t * toX ship;
         hy = (1 - t) * (1 - t) * fromY ship + 2 * (1 - t) * t * controlY + t * t * toY ship
     in if trailsEnabled
        then ship\<lparr>trail :=
               filter (\<lambda>p. alpha p > 0)
                 (map (\<lambda>p. p\<lparr>alpha := alpha p - 0.03\<rparr>)
                    (trail ship @ [\<lparr>tp_x = hx, tp_y = hy, alpha = 1\<rparr>]))\<rparr>
        else ship\<lparr>trail := [\<lparr>tp_x = hx, tp_y = hy, alpha = 1\<rparr>]\<rparr>)"

text \<open>The loop of \<open>updateShips\<close>; \<open>planetIdx\<close> grows by one for every ship.\<close>

fun updateShips_loop ::
  "real \<Rightarrow> real \<Rightarrow> bool \<Rightarrow> Planet list \<Rightarrow> nat \<Rightarrow> Ship list \<Rightarrow> Ship list" where
  "updateShips_loop centerX centerY trailsEnabled planets planetIdx [] = []"
| "updateShips_loop centerX centerY trailsEnabled planets planetIdx (ship # rest) =
     moveShip centerX centerY trailsEnabled (planetAt planets planetIdx) ship
     # updateShips_loop centerX centerY trailsEnabled planets (planetIdx + 1) rest"

text \<open>The loop of \<open>reassociateShips\<close> with its two counters.\<close>

fun reassociate_loop ::
  "real \<Rightarrow> real \<Rightarrow> Planet list \<Rightarrow> nat \<Rightarrow> nat \<Rightarrow> Ship list \<Rightarrow> Ship list" where
  "reassociate_loop centerX centerY planets outIdx inIdx [] = []"
| "reassociate_loop centerX centerY planets outIdx inIdx (ship # rest) =
    (if direction ship = outbound
     then aimAt centerX centerY (planetAt planets outIdx) ship
          # reassociate_loop centerX centerY planets (outIdx + 1) inIdx rest
     else aimAt centerX centerY (planetAt planets inIdx) ship
          # reassociate_loop centerX centerY planets outIdx (inIdx + 1) rest)"

definition reassociateShips :: "Ship list \<Rightarrow> Planet list \<Rightarrow> real \<Rightarrow> real \<Rightarrow> Ship list" where
  "reassociateShips ships planets centerX centerY =
     reassociate_loop centerX centerY planets 0 0 ships"

definition updateShips :: "Ship list \<Rightarrow> Planet list \<Rightarrow> real \<Rightarrow> real \<Rightarrow> bool \<Rightarrow> Ship list" where
  "updateShips ships planets centerX centerY trailsEnabled =
     reassociateShips (updateShips_loop centerX centerY trailsEnabled planets 0 ships)
       planets centerX centerY"

section \<open>Hit-testing (canvas/renderer.ts, the end of render)\<close>

definition screenToWorld :: "real \<Rightarrow> real \<Rightarrow> real \<Rightarrow> real \<Rightarrow> real \<Rightarrow> real \<times> real" where
  "screenToWorld centerX centerY zoom sx sy =
     ((sx - centerX) / zoom + centerX, (sy - centerY) / zoom + centerY)"

definition distanceTo :: "real \<times> real \<Rightarrow> real \<Rightarrow> real \<Rightarrow> real" where
  "distanceTo world tx ty =
     (let dx = fst world - tx; dy = snd world - ty in sqrt (dx * dx + dy * dy))"

text \<open>
  Pass 1. \<open>found\<close> is the index of the body found so far: the source keeps the object
  itself and later compares with \<open>===\<close>, and the bodies of the array are distinct
  objects, so the index identifies it.
\<close>

fun hitBodies ::
  "string set \<Rightarrow> real \<times> real \<Rightarrow> nat option \<Rightarrow> nat \<Rightarrow> Planet list \<Rightarrow> nat option" where
  "hitBodies disabledChains world found i [] = found"
| "hitBodies disabledChains world found i (planet # rest) =
    (if primaryChain (interaction planet) \<in> disabledChains
     then hitBodies disabledChains world found (i + 1) rest
     else if distanceTo world (pos_x planet) (pos_y planet) < body_size planet + 12
       then hitBodies disabledChains world (Some i) (i + 1) rest
       else hitBodies disabledChains world found (i + 1) rest)"

definition orbitSamples :: nat where
  "orbitSamples = 60"

text \<open>The distance from the pointer to sample \<open>k\<close> of a body's ring.\<close>

definition sampleDistance :: "real \<times> real \<Rightarrow> real \<Rightarrow> real \<Rightarrow> Camera \<Rightarrow> Planet \<Rightarrow> nat \<Rightarrow> real" where
  "sampleDistance world centerX centerY camera planet k =
    (let a = (real k / real orbitSamples) * pi * 2;
         pt = projectOrbitPoint a (orbitRadius planet) (planeTiltX planet) (planeTiltZ planet)
                centerX centerY camera
     in distanceTo world (proj_x pt) (proj_y pt))"

text \<open>
  Pass 2. The state is \<open>(closestDist, found)\<close>; \<open>closestDist\<close> starts as
  \<open>Infinity\<close>, which is \<open>None\<close> here.
\<close>

definition sampleStep ::
  "real \<times> real \<Rightarrow> real \<Rightarrow> real \<Rightarrow> Camera \<Rightarrow> real \<Rightarrow> nat \<Rightarrow> Planet \<Rightarrow>
   real option \<times> nat option \<Rightarrow> nat \<Rightarrow> real option \<times> nat option" where
  "sampleStep world centerX centerY camera orbitThreshold i planet st k =
    (let dist = sampleDistance world centerX centerY camera planet k
     in if dist < orbitThreshold \<and> (case fst st of None \<Rightarrow> True | Some c \<Rightarrow> dist < c)
        then (Some dist, Some i) else st)"

fun hitRings ::
  "string set \<Rightarrow> real \<times> real \<Rightarrow> real \<Rightarrow> real \<Rightarrow> Camera \<Rightarrow> real \<Rightarrow>
   real option \<times> nat option \<Rightarrow> nat \<Rightarrow> Planet list \<Rightarrow> real option \<times> nat option" where
  "hitRings disabledChains world centerX centerY camera orbitThreshold st i [] = st"
| "hitRings disabledChains world centerX centerY camera orbitThreshold st i (planet # rest) =
    (if primaryChain (interaction planet) \<in> disabledChains
     then hitRings disabledChains world centerX centerY camera orbitThreshold st (i + 1) rest
     else hitRings disabledChains world centerX centerY camera orbitThreshold
            (foldl (sampleStep world centerX centerY camera orbitThreshold i planet) st
               [0 ..< orbitSamples])
            (i + 1) rest)"

text \<open>The hit test of one frame: the index of the hovered body, if any.\<close>

definition hitTest ::
  "Planet list \<Rightarrow> string set \<Rightarrow> real \<Rightarrow> real \<Rightarrow> real \<Rightarrow> Camera \<Rightarrow> real \<Rightarrow> real \<Rightarrow> nat option" where
  "hitTest planets disabledChains centerX centerY zoom camera mouseX mouseY =
    (let world = screenToWorld centerX centerY zoom mouseX mouseY;
         found = hitBodies disabledChains world None 0 planets
     in if found = None
        then snd (hitRings disabledChains world centerX centerY camera (10 / zoom)
                    (None, None) 0 planets)
        else found)"

text \<open>\<open>planet.hovered = planet === found\<close> for every body.\<close>

definition markHovered :: "nat option \<Rightarrow> Planet list \<Rightarrow> Planet list" where
  "markHovered found planets =
     map (\<lambda>ip. (snd ip)\<lparr>hovered := (found = Some (fst ip))\<rparr>) (enumerate 0 planets)"

text \<open>
  For stating what pass 1 finds: the indices of the enabled bodies within
  \<open>size + 12\<close> of the pointer, in iteration order.
\<close>

definition bodyHits :: "string set \<Rightarrow> real \<times> real \<Rightarrow> Planet list \<Rightarrow> nat list" where
  "bodyHits disabledChains world planets =
     filter (\<lambda>i. primaryChain (interaction (planets ! i)) \<notin> disabledChains
               \<and> distanceTo world (pos_x (planets ! i)) (pos_y (planets ! i))
                   < body_size (planets ! i) + 12)
       [0 ..< length planets]"

text \<open>
  For stating what pass 2 finds: body \<open>i\<close> is on an enabled chain and one of its
  ring samples is closer to the pointer than the threshold.
\<close>

definition ringHit ::
  "string set \<Rightarrow> real \<times> real \<Rightarrow> real \<Rightarrow> real \<Rightarrow> Camera \<Rightarrow> real \<Rightarrow> Planet list \<Rightarrow> nat \<Rightarrow> bool" where
  "ringHit dis w cx cy cam thr ps i =
     (i < length ps \<and> primaryChain (interaction (ps ! i)) \<notin> dis
      \<and> (\<exists>k < orbitSamples. sampleDistance w cx cy cam (ps ! i) k < thr))"

section \<open>Aggregating transactions (api/goldrush.ts, buildInteractions)\<close>

text \<open>
  \<open>Transaction\<close>. The addresses are optional because the code reads them with
  \<open>?.\<close>; \<open>null\<close> is \<open>None\<close>.
\<close>

record Transaction =
  from_address :: "string option"
  to_address :: "string option"
  from_address_label :: "string option"
  to_address_label :: "string option"
  value_quote :: "real option"
  block_signed_at :: string
  successful :: bool
  chain_name :: string
  chain_id :: string
  tx_hash :: string
  gas_quote :: "real option"

text \<open>
  The value type of the \<open>Map\<close> the function builds. \<open>chains\<close> is a \<open>Set\<close> and
  \<open>primaryChainCount\<close> a \<open>Map\<close>; both iterate in insertion order, so they are a list
  without duplicates and an association list.
\<close>

record Entry =
  e_address :: string
  e_label :: "string option"
  e_totalValueUsd :: real
  e_txCount :: nat
  e_sentCount :: nat
  e_receivedCount :: nat
  e_chains :: "string list"
  primaryChainCount :: "(string \<times> nat) list"
  e_firstInteraction :: string
  e_lastInteraction :: string

datatype TxDirection = sent | received

text \<open>\<open>toLowerCase\<close> on ASCII text (addresses are hexadecimal).\<close>

definition lower_char :: "char \<Rightarrow> char" where
  "lower_char c =
     (case map_of (zip ''ABCDEFGHIJKLMNOPQRSTUVWXYZ'' ''abcdefghijklmnopqrstuvwxyz'') c of
        Some l \<Rightarrow> l
      | None \<Rightarrow> c)"

definition toLowerCase :: "string \<Rightarrow> string" where
  "toLowerCase s = map lower_char s"

text \<open>Truthiness of an optional string: \<open>null\<close>, \<open>undefined\<close> and \<open>''\<close> are falsy.\<close>

definition truthy :: "string option \<Rightarrow> bool" where
  "truthy s = (case s of None \<Rightarrow> False | Some t \<Rightarrow> t \<noteq> [])"

text \<open>
  The head of the loop body, up to the last \<open>continue\<close>: the counterparty, its label
  and the direction, or \<open>None\<close> when the transaction is skipped.
\<close>

definition counterpartyOf ::
  "string \<Rightarrow> Transaction \<Rightarrow> (string \<times> string option \<times> TxDirection) option" where
  "counterpartyOf wallet tx =
    (let from = map_option toLowerCase (from_address tx);
         to = map_option toLowerCase (to_address tx)
     in if \<not> truthy from \<or> \<not> truthy to then None
        else
          (let picked =
                 (if the from = wallet then Some (the to, to_address_label tx, sent)
                  else if the to = wallet then Some (the from, from_address_label tx, received)
                  else None)
           in case picked of
                None \<Rightarrow> None
              | Some cld \<Rightarrow> if fst cld = wallet then None else Some cld))"

definition newEntry :: "string \<Rightarrow> string option \<Rightarrow> Transaction \<Rightarrow> Entry" where
  "newEntry counterparty counterpartyLabel tx =
    \<lparr>e_address = counterparty, e_label = counterpartyLabel, e_totalValueUsd = 0,
     e_txCount = 0, e_sentCount = 0, e_receivedCount = 0, e_chains = [],
     primaryChainCount = [], e_firstInteraction = block_signed_at tx,
     e_lastInteraction = block_signed_at tx\<rparr>"

text \<open>The updates of the entry, in the source's order.\<close>

definition recordTx :: "Transaction \<Rightarrow> string option \<Rightarrow> TxDirection \<Rightarrow> Entry \<Rightarrow> Entry" where
  "recordTx tx counterpartyLabel dir entry0 =
    (let e1 = entry0\<lparr>e_txCount := e_txCount entry0 + 1\<rparr>;
         e2 = (if dir = sent then e1\<lparr>e_sentCount := e_sentCount e1 + 1\<rparr>
               else e1\<lparr>e_receivedCount := e_receivedCount e1 + 1\<rparr>);
         e3 = e2\<lparr>e_totalValueUsd :=
                   e_totalValueUsd e2 + (case value_quote tx of None \<Rightarrow> 0 | Some v \<Rightarrow> v)\<rparr>;
         e4 = (if chain_name tx \<noteq> []
               then e3\<lparr>e_chains :=
                         (if chain_name tx \<in> set (e_chains e3) then e_chains e3
                          else e_chains e3 @ [chain_name tx]),
                       primaryChainCount :=
                         AList.update (chain_name tx)
                           ((case map_of (primaryChainCount e3) (chain_name tx) of
                               None \<Rightarrow> 0 | Some c \<Rightarrow> c) + 1)
                           (primaryChainCount e3)\<rparr>
               else e3);
         e5 = (if block_signed_at tx > e_lastInteraction e4
               then e4\<lparr>e_lastInteraction := block_signed_at tx\<rparr> else e4);
         e6 = (if block_signed_at tx < e_firstInteraction e5
               then e5\<lparr>e_firstInteraction := block_signed_at tx\<rparr> else e5)
     in if \<not> truthy (e_label e6) \<and> truthy counterpartyLabel
        then e6\<lparr>e_label := counterpartyLabel\<rparr> else e6)"

text \<open>
  The loop over the transactions. The \<open>Map\<close> keeps its keys in insertion order; an
  entry is mutated in place, so its position does not change.
\<close>

fun buildMap :: "string \<Rightarrow> (string \<times> Entry) list \<Rightarrow> Transaction list \<Rightarrow> (string \<times> Entry) list" where
  "buildMap wallet m [] = m"
| "buildMap wallet m (tx # rest) =
    (case counterpartyOf wallet tx of
       None \<Rightarrow> buildMap wallet m rest
     | Some cld \<Rightarrow>
        (let counterparty = fst cld;
             counterpartyLabel = fst (snd cld);
             dir = snd (snd cld);
             entry = (case map_of m counterparty of
                        Some e \<Rightarrow> e
                      | None \<Rightarrow> newEntry counterparty counterpartyLabel tx)
         in buildMap wallet
              (AList.update counterparty (recordTx tx counterpartyLabel dir entry) m) rest))"

text \<open>The chain with the greatest count, the first one on a tie, eth-mainnet if none.\<close>

definition primaryChainOf :: "(string \<times> nat) list \<Rightarrow> string" where
  "primaryChainOf counts =
     fst (foldl (\<lambda>best cc. if snd cc > snd best then cc else best) (''eth-mainnet'', 0) counts)"

definition toInteraction :: "Entry \<Rightarrow> WalletInteraction" where
  "toInteraction entry =
    \<lparr>address = e_address entry, label = e_label entry,
     totalValueUsd = e_totalValueUsd entry, txCount = e_txCount entry,
     sentCount = e_sentCount entry, receivedCount = e_receivedCount entry,
     chains = e_chains entry, primaryChain = primaryChainOf (primaryChainCount entry),
     firstInteraction = e_firstInteraction entry, lastInteraction = e_lastInteraction entry\<rparr>"

text \<open>
  \<open>.sort((a, b) => b.txCount - a.txCount)\<close>, a stable sort by descending count, and
  \<open>.slice(0, 20)\<close>.
\<close>

definition byTxCountDesc :: "WalletInteraction list \<Rightarrow> WalletInteraction list" where
  "byTxCountDesc ws = sort_key (\<lambda>w. - int (txCount w)) ws"

definition buildInteractions :: "string \<Rightarrow> Transaction list \<Rightarrow> WalletInteraction list" where
  "buildInteractions walletAddress transactions =
    (let wallet = toLowerCase walletAddress
     in take 20 (byTxCountDesc (map (\<lambda>ke. toInteraction (snd ke))
                                  (buildMap wallet [] transactions))))"

section \<open>Example inputs\<close>

text \<open>
  Concrete inputs on which the theorems below are instantiated. Three interaction
  records with txCounts 10, 5, 1 on eth-mainnet, base-mainnet, eth-mainnet.
\<close>

definition example_interactions :: "WalletInteraction list" where
  "example_interactions =
    [\<lparr>address = ''0xaa'', label = None, totalValueUsd = 0, txCount = 10, sentCount = 6,
       receivedCount = 4, chains = [''eth-mainnet''], primaryChain = ''eth-mainnet'',
       firstInteraction = ''2024-01-01T00:00:00Z'', lastInteraction = ''2024-03-01T00:00:00Z''\<rparr>,
     \<lparr>address = ''0xbb'', label = None, totalValueUsd = 0, txCount = 5, sentCount = 2,
       receivedCount = 3, chains = [''base-mainnet''], primaryChain = ''base-mainnet'',
       firstInteraction = ''2024-01-02T00:00:00Z'', lastInteraction = ''2024-03-02T00:00:00Z''\<rparr>,
     \<lparr>address = ''0xcc'', label = None, totalValueUsd = 0, txCount = 1, sentCount = 1,
       receivedCount = 0, chains = [''eth-mainnet''], primaryChain = ''eth-mainnet'',
       firstInteraction = ''2024-01-03T00:00:00Z'', lastInteraction = ''2024-03-03T00:00:00Z''\<rparr>]"

text \<open>The same three records with every txCount set to 0.\<close>

definition idle_interactions :: "WalletInteraction list" where
  "idle_interactions = map (\<lambda>w. w\<lparr>txCount := 0\<rparr>) example_interactions"

text \<open>A \<open>Math.random\<close> that always returns 0, and a clock that maps every date to 0.\<close>

definition zero_draws :: "nat \<Rightarrow> real" where
  "zero_draws k = 0"

definition epoch :: "string \<Rightarrow> real" where
  "epoch s = 0"

text \<open>
  A body of radius \<open>r\<close> at angle pi/2 on a plane tilted by pi/2, standing still; under
  the camera turned by pi its depth is \<open>- r\<close>.
\<close>

definition example_body :: "real \<Rightarrow> Planet" where
  "example_body r =
    \<lparr>interaction = example_interactions ! 0, orbitRadius = r, angle = pi / 2, angularSpeed = 0,
     body_size = 10, color = ''#627EEA'', glowColor = ''rgba(98, 126, 234, 0.4)'',
     pos_x = 0, pos_y = 0, pos_z = 0, hovered = False, planeTiltX = pi / 2, planeTiltZ = 0\<rparr>"

definition turned_camera :: Camera where
  "turned_camera = \<lparr>tiltX = 0, rotationY = pi\<rparr>"

text \<open>Bodies with every radius off by 0.001, as a rounding error would leave them.\<close>

definition nudged :: "Planet list \<Rightarrow> Planet list" where
  "nudged ps = map (\<lambda>p. p\<lparr>orbitRadius := orbitRadius p - 0.001\<rparr>) ps"

text \<open>A ship about to wrap, with one old trail point.\<close>

definition wrapping_ship :: Ship where
  "wrapping_ship =
    \<lparr>fromX = 0, fromY = 0, toX = 100, toY = 0, progress = 0.999, speed = 0.01,
     ship_color = ''#ff9944'',
     trail = [\<lparr>tp_x = 99, tp_y = 0, alpha = 0.5\<rparr>], direction = outbound,
     chain = ''eth-mainnet'', activationTime = 0\<rparr>"

text \<open>Two bodies that only send: the first sent twice, the second once.\<close>

definition sender_a :: Planet where
  "sender_a = (example_body 100)\<lparr>interaction := (example_interactions ! 2)\<lparr>sentCount := 2\<rparr>,
     pos_x := 500, pos_y := 300\<rparr>"

definition sender_b :: Planet where
  "sender_b = (example_body 200)\<lparr>interaction := example_interactions ! 2,
     pos_x := 400, pos_y := 500\<rparr>"

text \<open>A body on base-mainnet at (500, 300) and a body on eth-mainnet at (100, 300).\<close>

definition hover_bodies :: "Planet list" where
  "hover_bodies =
    [(example_body 100)\<lparr>interaction := example_interactions ! 1, pos_x := 500, pos_y := 300\<rparr>,
     (example_body 200)\<lparr>pos_x := 100, pos_y := 300\<rparr>]"

text \<open>
  Five transactions of the wallet 0xab: one sent to 0xc1, one received from and one
  sent to 0xc2, one to itself, and one between strangers.
\<close>

definition tx_example :: "string \<Rightarrow> string \<Rightarrow> string \<Rightarrow> string \<Rightarrow> Transaction" where
  "tx_example f t day ch =
    \<lparr>from_address = Some f, to_address = Some t, from_address_label = None,
     to_address_label = None, value_quote = Some 1, block_signed_at = day,
     successful = True, chain_name = ch, chain_id = ''1'', tx_hash = ''0x00'',
     gas_quote = None\<rparr>"

definition example_transactions :: "Transaction list" where
  "example_transactions =
    [tx_example ''0xAB'' ''0xc1'' ''2024-01-02'' ''eth-mainnet'',
     tx_example ''0xc2'' ''0xab'' ''2024-01-03'' ''base-mainnet'',
     tx_example ''0xab'' ''0xC2'' ''2024-01-01'' ''base-mainnet'',
     tx_example ''0xab'' ''0xab'' ''2024-01-04'' ''eth-mainnet'',
     tx_example ''0xd1'' ''0xd2'' ''2024-01-05'' ''eth-mainnet'']"

section \<open>Theorems\<close>

text \<open>
  Each property is stated on the definitions above. Where a property needs an input of
  a certain shape, a second theorem instantiates it on one of the example inputs.
\<close>

subsection \<open>Projection\<close>

text \<open>
  C1. For every angle, orbit radius, plane tilt pair, origin and camera,
  \<open>projectOrbitPoint\<close> is exactly the pipeline: place the point on the flat ring, rotate
  about X by the plane's tiltX, about Z by the plane's tiltZ, about Y by the camera's
  rotationY, about X by the camera's tiltX, then translate x and y by the origin; the
  returned depth is the z coordinate after the camera rotations, untranslated.
\<close>

theorem projectOrbitPoint_pipeline:
  "projectOrbitPoint a r ptx ptz cx cy cam =
     translate_xy cx cy (post_camera a r ptx ptz cam)
   \<and> proj_z (projectOrbitPoint a r ptx ptz cx cy cam) =
     snd (snd (post_camera a r ptx ptz cam))"
  by (simp add: projectOrbitPoint_def post_camera_def place_on_ring_def rotate_plane_def
      Let_def)








subsection \<open>Zoom\<close>

lemma onWheel_range: "0.3 \<le> onWheel zoom deltaY \<and> onWheel zoom deltaY \<le> 8"
  by (simp add: onWheel_def Let_def)

lemma foldl_onWheel_range:
  "0.3 \<le> zoom \<Longrightarrow> zoom \<le> 8 \<Longrightarrow>
   0.3 \<le> foldl onWheel zoom deltas \<and> foldl onWheel zoom deltas \<le> 8"
proof (induction deltas arbitrary: zoom)
  case Nil
  then show ?case by simp
next
  case (Cons d ds)
  have "0.3 \<le> onWheel zoom d" and "onWheel zoom d \<le> 8"
    using onWheel_range [of zoom d] by simp_all
  then show ?case
    using Cons.IH [of "onWheel zoom d"] by simp
qed

text \<open>
  C8. Starting from zoom = 1, after any sequence of wheel events (each multiplying the
  zoom by 1.08 or by 1/1.08 and clamping) the zoom lies in [0.3, 8].
\<close>

theorem zoom_stays_clamped:
  "0.3 \<le> wheel_events deltas \<and> wheel_events deltas \<le> 8"
  unfolding wheel_events_def
  by (rule foldl_onWheel_range) (simp_all add: initial_zoom_def)

subsection \<open>Body sizes\<close>

lemma createPlanets_nth:
  assumes "i < length interactions"
  shows "createPlanets rnd interactions cx cy wd h ! i =
     createPlanet rnd interactions cx cy 100
       (if length interactions > 1
        then (min (h * 0.42) 500 - 100) / real (length interactions - 1) else 0)
       (i, interactions ! i)"
  using assms by (simp add: createPlanets_def Let_def nth_enumerate_eq)

lemma createPlanet_fields:
  "orbitRadius (createPlanet rnd ws cx cy mn st (i, w)) = mn + st * real i"
  "planeTiltX (createPlanet rnd ws cx cy mn st (i, w)) = fst (getChainPlane (primaryChain w))"
  "planeTiltZ (createPlanet rnd ws cx cy mn st (i, w)) = snd (getChainPlane (primaryChain w))"
  "interaction (createPlanet rnd ws cx cy mn st (i, w)) = w"
  "body_size (createPlanet rnd ws cx cy mn st (i, w)) =
     (case planetSize ws w of Some sv \<Rightarrow> sv | None \<Rightarrow> 0)"
  by (simp_all add: createPlanet_def Let_def)

lemma createPlanets_length:
  "length (createPlanets rnd ws cx cy wd h) = length ws"
  by (simp add: createPlanets_def Let_def)

lemma or_one_max: "or_one m = max m 1"
  by (simp add: or_one_def)

lemma txCount_le_max:
  assumes "i < length interactions"
  shows "txCount (interactions ! i) \<le> maxTxCount interactions"
  using assms by (simp add: maxTxCount_def)

lemma planetSize_finite:
  "planetSize ws w =
     Some (6 + 18 * (real (txCount w) / real (max (maxTxCount ws) 1)))"
  by (simp add: planetSize_def js_div_def or_one_max Let_def)

text \<open>
  C10. For a non-empty record list and each record \<open>i\<close> of it: the divisor of the size
  ratio, \<open>maxTx || 1\<close>, is never zero, so the division gives a finite number and the
  size is \<open>6 + 18 * (txCount / max(maxTxCount, 1))\<close>; this is the size of body \<open>i\<close>; it
  lies in [6, 24]; and when every record's txCount is 0 every body has size exactly 6.
\<close>

theorem body_size_range:
  assumes "i < length interactions"
  shows "or_one (maxTxCount interactions) \<noteq> 0
       \<and> js_div (real (txCount (interactions ! i))) (real (or_one (maxTxCount interactions)))
           = Some (real (txCount (interactions ! i)) / real (max (maxTxCount interactions) 1))
       \<and> planetSize interactions (interactions ! i)
           = Some (6 + 18 * (real (txCount (interactions ! i))
                              / real (max (maxTxCount interactions) 1)))
       \<and> body_size (createPlanets rnd interactions cx cy wd h ! i) =
           6 + 18 * (real (txCount (interactions ! i)) / real (max (maxTxCount interactions) 1))
       \<and> 6 \<le> body_size (createPlanets rnd interactions cx cy wd h ! i)
       \<and> body_size (createPlanets rnd interactions cx cy wd h ! i) \<le> 24
       \<and> ((\<forall>w \<in> set interactions. txCount w = 0) \<longrightarrow>
            planetSize interactions (interactions ! i) = Some 6
            \<and> body_size (createPlanets rnd interactions cx cy wd h ! i) = 6)"
proof -
  define m where "m = max (maxTxCount interactions) 1"
  define t where "t = txCount (interactions ! i)"
  define q where "q = real t / real m"
  have divisor: "or_one (maxTxCount interactions) \<noteq> 0"
    by (simp add: or_one_def)
  have ratio_finite: "js_div (real t) (real (or_one (maxTxCount interactions))) = Some q"
    by (simp add: js_div_def or_one_max m_def q_def)
  have finite: "planetSize interactions (interactions ! i) = Some (6 + 18 * q)"
    by (simp add: planetSize_finite m_def t_def q_def)
  have sz: "body_size (createPlanets rnd interactions cx cy wd h ! i) = 6 + 18 * q"
    by (simp add: createPlanets_nth [OF assms] createPlanet_fields finite)
  have m: "0 < m" by (simp add: m_def)
  have "t \<le> m" using txCount_le_max [OF assms] by (simp add: m_def t_def)
  with m have ratio: "0 \<le> q" "q \<le> 1"
    by (simp_all add: q_def)
  have zero: "q = 0" if "\<forall>w \<in> set interactions. txCount w = 0"
    using that assms by (simp add: t_def q_def)
  from divisor ratio_finite finite sz ratio zero show ?thesis
    unfolding q_def [symmetric] t_def [symmetric] m_def [symmetric] by auto
qed

theorem body_size_range_witness:
  "body_size (createPlanets zero_draws example_interactions 400 300 800 600 ! 1) = 15
   \<and> body_size (createPlanets zero_draws example_interactions 400 300 800 600 ! 0) = 24
   \<and> or_one (maxTxCount idle_interactions) = 1
   \<and> planetSize idle_interactions (idle_interactions ! 0) = Some 6
   \<and> body_size (createPlanets zero_draws idle_interactions 400 300 800 600 ! 0) = 6
   \<and> body_size (createPlanets zero_draws idle_interactions 400 300 800 600 ! 2) = 6"
proof -
  have zeros: "\<forall>w \<in> set idle_interactions. txCount w = 0"
    by (simp add: idle_interactions_def example_interactions_def)
  have len: "0 < length idle_interactions" "2 < length idle_interactions"
    by (simp_all add: idle_interactions_def example_interactions_def)
  have busy: "1 < length example_interactions" "0 < length example_interactions"
    by (simp_all add: example_interactions_def)
  have mx: "maxTxCount example_interactions = 10" "maxTxCount idle_interactions = 0"
    by (simp_all add: maxTxCount_def idle_interactions_def example_interactions_def)
  have tx: "txCount (example_interactions ! Suc 0) = 5" "txCount (example_interactions ! 0) = 10"
    by (simp_all add: example_interactions_def)
  from body_size_range [OF busy(1), of zero_draws 400 300 800 600]
  have a: "body_size (createPlanets zero_draws example_interactions 400 300 800 600 ! 1) = 15"
    by (simp add: mx tx)
  from body_size_range [OF busy(2), of zero_draws 400 300 800 600]
  have b: "body_size (createPlanets zero_draws example_interactions 400 300 800 600 ! 0) = 24"
    by (simp add: mx tx)
  from body_size_range [OF len(1), of zero_draws 400 300 800 600] zeros
  have c: "planetSize idle_interactions (idle_interactions ! 0) = Some 6"
    "body_size (createPlanets zero_draws idle_interactions 400 300 800 600 ! 0) = 6"
    by blast+
  from body_size_range [OF len(2), of zero_draws 400 300 800 600] zeros
  have d: "body_size (createPlanets zero_draws idle_interactions 400 300 800 600 ! 2) = 6"
    by blast
  from a b c d show ?thesis
    by (simp add: mx or_one_def)
qed

subsection \<open>Ring keys and ring draws\<close>

text \<open>
  A rendering by \<open>toFixed\<close> determines the rounded integer it was made from, and a
  ring key determines its three renderings, since none of them contains the separator.
\<close>

lemma replicate_three: "replicate 3 c = [c, c, c]" "replicate 4 c = [c, c, c, c]"
  by (simp_all add: numeral_3_eq_3 numeral_eq_Suc)

lemma toFixed_examples:
  "toFixed 1 100 = ''100.0''" "toFixed 1 100.049 = ''100.0''" "toFixed 1 100.05 = ''100.1''"
  "toFixed 3 0 = ''0.000''" "toFixed 3 1.1938 = ''1.194''" "toFixed 1 (- 0.04) = ''-0.0''"
  by (simp_all add: toFixed_def nearest_scaled_def decimal.simps digit_char_def Let_def
      replicate_three)

lemma digit_char_cases: "d < 10 \<Longrightarrow> d \<in> {0,1,2,3,4,5,6,7,8,9::nat}"
  by auto

lemma digit_val_digit_char: "d < 10 \<Longrightarrow> digit_val (digit_char d) = d"
  using digit_char_cases [of d]
  by (auto simp: digit_val_def digit_char_def)

lemma is_digit_digit_char: "d < 10 \<Longrightarrow> is_digit (digit_char d)"
  using digit_char_cases [of d]
  by (auto simp: is_digit_def digit_char_def)

lemma num_val_snoc: "num_val (s @ [c]) = num_val s * 10 + digit_val c"
  by (simp add: num_val_def)

lemma num_val_decimal: "num_val (decimal n) = n"
proof (induction n rule: decimal.induct)
  case (1 n)
  show ?case
  proof (cases "n < 10")
    case True
    then show ?thesis
      by (simp add: decimal.simps [of n] num_val_def digit_val_digit_char)
  next
    case False
    with 1 show ?thesis
      by (simp add: decimal.simps [of n] num_val_snoc digit_val_digit_char)
  qed
qed

lemma decimal_digits: "\<forall>c \<in> set (decimal n). is_digit c"
proof (induction n rule: decimal.induct)
  case (1 n)
  show ?case
  proof (cases "n < 10")
    case True
    then show ?thesis
      by (simp add: decimal.simps [of n] is_digit_digit_char)
  next
    case False
    with 1 show ?thesis
      by (simp add: decimal.simps [of n] is_digit_digit_char)
  qed
qed

lemma num_val_zeros: "num_val (replicate k (CHR ''0'') @ s) = num_val s"
proof (induction k)
  case 0
  then show ?case by simp
next
  case (Suc k)
  have "foldl (\<lambda>acc c. acc * 10 + digit_val c) 0 (CHR ''0'' # replicate k (CHR ''0'') @ s)
      = foldl (\<lambda>acc c. acc * 10 + digit_val c) 0 (replicate k (CHR ''0'') @ s)"
    by (simp add: digit_val_def)
  with Suc show ?case by (simp add: num_val_def)
qed

lemma filter_digits_decimal: "filter is_digit (decimal n) = decimal n"
  using decimal_digits [of n] by (simp add: filter_id_conv)

lemma filter_digits_zeros: "filter is_digit (replicate k (CHR ''0'')) = replicate k (CHR ''0'')"
  by (simp add: is_digit_def)

lemma not_digit_minus: "\<not> is_digit (CHR ''-'')" and not_digit_point: "\<not> is_digit (CHR ''.'')"
  and not_digit_underscore: "\<not> is_digit (CHR ''_'')"
  by (simp_all add: is_digit_def)

lemma toFixed_value: "num_val (filter is_digit (toFixed f v)) = nearest_scaled f v"
proof -
  define m where "m = decimal (nearest_scaled f v)"
  define pm where "pm = (if length m \<le> f then replicate (f + 1 - length m) (CHR ''0'') @ m else m)"
  define s where "s = (if v < 0 then ''-'' else [])"
  have s: "filter is_digit s = []"
    by (simp add: s_def not_digit_minus)
  have pm: "filter is_digit pm = pm"
    by (simp add: pm_def m_def filter_digits_decimal filter_digits_zeros)
  have tk: "filter is_digit (take j pm) @ filter is_digit (drop j pm) = pm" for j
    using pm by (metis append_take_drop_id filter_append)
  have "toFixed f v =
      (if f \<noteq> 0 then s @ take (length pm - f) pm @ ''.'' @ drop (length pm - f) pm else s @ pm)"
    by (simp add: toFixed_def Let_def m_def pm_def s_def)
  then have "filter is_digit (toFixed f v) = pm"
    by (simp add: s pm tk not_digit_point)
  moreover have "num_val pm = nearest_scaled f v"
    by (simp add: pm_def m_def num_val_zeros num_val_decimal)
  ultimately show ?thesis by simp
qed

lemma toFixed_no_underscore: "CHR ''_'' \<notin> set (toFixed f v)"
proof -
  have d: "CHR ''_'' \<notin> set (decimal n)" for n
    using decimal_digits [of n] not_digit_underscore by blast
  have t: "CHR ''_'' \<notin> set (take j m)" if "CHR ''_'' \<notin> set m" for j m
    using that by (meson in_set_takeD)
  have dr: "CHR ''_'' \<notin> set (drop j m)" if "CHR ''_'' \<notin> set m" for j m
    using that by (meson in_set_dropD)
  show ?thesis
    by (auto simp: toFixed_def Let_def d dest!: in_set_takeD in_set_dropD)
qed

lemma split_at_separator:
  "c \<notin> set u \<Longrightarrow> c \<notin> set u' \<Longrightarrow> u @ c # w = u' @ c # w' \<Longrightarrow> u = u' \<and> w = w'"
proof (induction u arbitrary: u')
  case Nil
  then show ?case by (cases u') auto
next
  case (Cons x xs)
  then show ?case by (cases u') auto
qed

lemma ringKey_components:
  assumes "ringKey p = ringKey q"
  shows "toFixed 1 (orbitRadius p) = toFixed 1 (orbitRadius q)
       \<and> toFixed 3 (planeTiltX p) = toFixed 3 (planeTiltX q)
       \<and> toFixed 3 (planeTiltZ p) = toFixed 3 (planeTiltZ q)"
proof -
  from assms have e: "toFixed 1 (orbitRadius p) @ CHR ''_'' #
       (toFixed 3 (planeTiltX p) @ CHR ''_'' # toFixed 3 (planeTiltZ p))
     = toFixed 1 (orbitRadius q) @ CHR ''_'' #
       (toFixed 3 (planeTiltX q) @ CHR ''_'' # toFixed 3 (planeTiltZ q))"
    by (simp add: ringKey_def)
  from split_at_separator [OF toFixed_no_underscore toFixed_no_underscore e]
  have r: "toFixed 1 (orbitRadius p) = toFixed 1 (orbitRadius q)"
    and rest: "toFixed 3 (planeTiltX p) @ CHR ''_'' # toFixed 3 (planeTiltZ p)
             = toFixed 3 (planeTiltX q) @ CHR ''_'' # toFixed 3 (planeTiltZ q)"
    by simp_all
  from split_at_separator [OF toFixed_no_underscore toFixed_no_underscore rest] r
  show ?thesis by simp
qed

lemma ringKey_rounded:
  assumes "ringKey p = ringKey q"
  shows "nearest_scaled 1 (orbitRadius p) = nearest_scaled 1 (orbitRadius q)
       \<and> nearest_scaled 3 (planeTiltX p) = nearest_scaled 3 (planeTiltX q)
       \<and> nearest_scaled 3 (planeTiltZ p) = nearest_scaled 3 (planeTiltZ q)"
  using ringKey_components [OF assms] by (metis toFixed_value)

lemma three_records:
  assumes "map txCount interactions = [a, b, c]"
  obtains w0 w1 w2 where "interactions = [w0, w1, w2]"
    "txCount w0 = a" "txCount w1 = b" "txCount w2 = c"
  using assms by (auto simp: map_eq_Cons_conv)

lemma createPlanets_three:
  "createPlanets rnd [w0, w1, w2] cx cy wd h =
    (let st = (min (h * 0.42) 500 - 100) / 2 in
     [createPlanet rnd [w0, w1, w2] cx cy 100 st (0, w0),
      createPlanet rnd [w0, w1, w2] cx cy 100 st (1, w1),
      createPlanet rnd [w0, w1, w2] cx cy 100 st (2, w2)])"
  by (simp add: createPlanets_def Let_def numeral_2_eq_2)

lemma plane_eth: "getChainPlane ''eth-mainnet'' = (0, 0)"
  by (simp add: getChainPlane_def CHAIN_PLANES_def)

lemma plane_base: "getChainPlane ''base-mainnet'' = (pi * 0.38, 0)"
  by (simp add: getChainPlane_def CHAIN_PLANES_def)

text \<open>
  Rounded integers are monotone in the magnitude, which bounds the key of a body whose
  radius or tilt is only known up to a small error.
\<close>

lemma nearest_scaled_mono:
  assumes "\<bar>u\<bar> \<le> \<bar>v\<bar>"
  shows "nearest_scaled f u \<le> nearest_scaled f v"
proof -
  from assms have "\<bar>u\<bar> * 10 ^ f + 1 / 2 \<le> \<bar>v\<bar> * 10 ^ f + 1 / 2"
    by (simp add: mult_right_mono)
  then have "\<lfloor>\<bar>u\<bar> * 10 ^ f + 1 / 2\<rfloor> \<le> \<lfloor>\<bar>v\<bar> * 10 ^ f + 1 / 2\<rfloor>"
    by (rule floor_mono)
  then show ?thesis
    unfolding nearest_scaled_def by (rule nat_mono)
qed

lemma nearest_scaled_inner:
  assumes "\<bar>v\<bar> \<le> 100.01"
  shows "nearest_scaled 1 v \<le> 1000"
proof -
  have "nearest_scaled 1 v \<le> nearest_scaled 1 100.01"
    by (rule nearest_scaled_mono) (use assms in simp)
  also have "nearest_scaled 1 100.01 = 1000"
    by (simp add: nearest_scaled_def)
  finally show ?thesis .
qed

lemma nearest_scaled_outer:
  assumes "100.37 \<le> v"
  shows "1003 \<le> nearest_scaled 1 v"
proof -
  have "nearest_scaled 1 100.37 \<le> nearest_scaled 1 v"
    by (rule nearest_scaled_mono) (use assms in simp)
  moreover have "nearest_scaled 1 100.37 = 1004"
    by (simp add: nearest_scaled_def)
  ultimately show ?thesis by simp
qed

lemma nearest_scaled_flat_tilt:
  assumes "\<bar>v\<bar> \<le> 0.01"
  shows "nearest_scaled 3 v \<le> 10"
proof -
  have "nearest_scaled 3 v \<le> nearest_scaled 3 0.01"
    by (rule nearest_scaled_mono) (use assms in simp)
  also have "nearest_scaled 3 0.01 = 10"
    by (simp add: nearest_scaled_def)
  finally show ?thesis .
qed

lemma nearest_scaled_base_tilt:
  assumes "\<bar>v - pi * 0.38\<bar> \<le> 0.01"
  shows "750 \<le> nearest_scaled 3 v"
proof -
  have "2 \<le> pi" by (rule pi_ge_two)
  with assms have "0.75 \<le> v" unfolding abs_le_iff by simp
  then have "nearest_scaled 3 0.75 \<le> nearest_scaled 3 v"
    by (intro nearest_scaled_mono) simp
  moreover have "nearest_scaled 3 0.75 = 750"
    by (simp add: nearest_scaled_def)
  ultimately show ?thesis by simp
qed

lemma drawOrbits_three_keys:
  assumes "ringKey p0 \<noteq> ringKey p1" "ringKey p0 \<noteq> ringKey p2" "ringKey p1 \<noteq> ringKey p2"
  shows "map fst (drawOrbits [p0, p1, p2] cx cy cam dis) =
     filter (\<lambda>p. \<not> chainDisabled dis (primaryChain (interaction p))) [p0, p1, p2]"
  using assms by (simp add: drawOrbits_def Let_def)

lemma three_records_rings:
  assumes tx: "map txCount interactions = [10, 5, 1]"
    and ch: "map primaryChain interactions = [''eth-mainnet'', ''base-mainnet'', ''eth-mainnet'']"
    and h: "239 \<le> height"
    and near: "list_all2 (closeBody 0.01) qs (createPlanets rnd interactions cx cy width height)"
  shows "orbitRadius (qs ! 0) < orbitRadius (qs ! 1)
       \<and> orbitRadius (qs ! 1) < orbitRadius (qs ! 2)
       \<and> planeTiltX (createPlanets rnd interactions cx cy width height ! 0)
           = planeTiltX (createPlanets rnd interactions cx cy width height ! 2)
       \<and> planeTiltZ (createPlanets rnd interactions cx cy width height ! 0)
           = planeTiltZ (createPlanets rnd interactions cx cy width height ! 2)
       \<and> ringKey (qs ! 0) \<noteq> ringKey (qs ! 2)
       \<and> map fst (drawOrbits qs cx cy cam dis)
           = filter (\<lambda>p. \<not> chainDisabled dis (primaryChain (interaction p))) qs
       \<and> length (drawOrbits qs cx cy cam None) = 3
       \<and> length (drawOrbits qs cx cy cam (Some {})) = 3
       \<and> (\<not> chainDisabled dis ''eth-mainnet'' \<and> \<not> chainDisabled dis ''base-mainnet''
            \<longrightarrow> length (drawOrbits qs cx cy cam dis) = 3)"
proof -
  from tx obtain w0 w1 w2 where ws: "interactions = [w0, w1, w2]"
    by (rule three_records)
  from ch ws have chains: "primaryChain w0 = ''eth-mainnet''" "primaryChain w1 = ''base-mainnet''"
    "primaryChain w2 = ''eth-mainnet''" by simp_all
  define st where "st = (min (height * 0.42) 500 - 100) / 2"
  define p0 where "p0 = createPlanet rnd [w0, w1, w2] cx cy 100 st (0, w0)"
  define p1 where "p1 = createPlanet rnd [w0, w1, w2] cx cy 100 st (1, w1)"
  define p2 where "p2 = createPlanet rnd [w0, w1, w2] cx cy 100 st (2, w2)"
  have ps: "createPlanets rnd interactions cx cy width height = [p0, p1, p2]"
    by (simp add: ws createPlanets_three Let_def st_def p0_def p1_def p2_def)
  from h have st: "0.19 \<le> st" by (simp add: st_def)
  have r: "orbitRadius p0 = 100" "orbitRadius p1 = 100 + st" "orbitRadius p2 = 100 + st * 2"
    by (simp_all add: p0_def p1_def p2_def createPlanet_fields)
  have tilts: "planeTiltX p0 = 0" "planeTiltZ p0 = 0" "planeTiltX p2 = 0" "planeTiltZ p2 = 0"
    "planeTiltX p1 = pi * 0.38"
    by (simp_all add: p0_def p1_def p2_def createPlanet_fields chains plane_eth plane_base)
  have pch: "primaryChain (interaction p0) = ''eth-mainnet''"
    "primaryChain (interaction p1) = ''base-mainnet''"
    "primaryChain (interaction p2) = ''eth-mainnet''"
    by (simp_all add: p0_def p1_def p2_def createPlanet_fields chains)
  from near ps obtain q0 q1 q2 where qs: "qs = [q0, q1, q2]"
    and c0: "closeBody 0.01 q0 p0" and c1: "closeBody 0.01 q1 p1" and c2: "closeBody 0.01 q2 p2"
    by (auto simp: list_all2_Cons2)
  from c0 c1 c2 have d: "\<bar>orbitRadius q0 - orbitRadius p0\<bar> \<le> 0.01"
    "\<bar>orbitRadius q1 - orbitRadius p1\<bar> \<le> 0.01" "\<bar>orbitRadius q2 - orbitRadius p2\<bar> \<le> 0.01"
    "\<bar>planeTiltX q0 - planeTiltX p0\<bar> \<le> 0.01" "\<bar>planeTiltX q1 - planeTiltX p1\<bar> \<le> 0.01"
    "\<bar>planeTiltX q2 - planeTiltX p2\<bar> \<le> 0.01"
    unfolding closeBody_def by blast+
  from d(1) r(1) have q0r: "\<bar>orbitRadius q0\<bar> \<le> 100.01" unfolding abs_le_iff by simp
  from d(1) r(1) have q0u: "orbitRadius q0 \<le> 100.01" unfolding abs_le_iff by simp
  from d(2) r(2) have q1r: "99.99 + st \<le> orbitRadius q1" "orbitRadius q1 \<le> 100.01 + st"
    unfolding abs_le_iff by simp_all
  from d(3) r(3) have q2l: "99.99 + st * 2 \<le> orbitRadius q2" unfolding abs_le_iff by simp
  with st have q2r: "100.37 \<le> orbitRadius q2" unfolding abs_le_iff by simp
  from d(4) tilts(1) have q0t: "\<bar>planeTiltX q0\<bar> \<le> 0.01" by simp
  from d(6) tilts(3) have q2t: "\<bar>planeTiltX q2\<bar> \<le> 0.01" by simp
  from d(5) tilts(5) have q1t: "\<bar>planeTiltX q1 - pi * 0.38\<bar> \<le> 0.01" by simp
  have qch: "primaryChain (interaction q0) = ''eth-mainnet''"
    "primaryChain (interaction q1) = ''base-mainnet''"
    "primaryChain (interaction q2) = ''eth-mainnet''"
    using c0 c1 c2 pch by (simp_all add: closeBody_def)
  have k02: "ringKey q0 \<noteq> ringKey q2"
  proof
    assume "ringKey q0 = ringKey q2"
    then have "nearest_scaled 1 (orbitRadius q0) = nearest_scaled 1 (orbitRadius q2)"
      by (rule ringKey_rounded [THEN conjunct1])
    with nearest_scaled_inner [OF q0r] nearest_scaled_outer [OF q2r]
    show False by simp
  qed
  have k01: "ringKey q0 \<noteq> ringKey q1"
  proof
    assume "ringKey q0 = ringKey q1"
    then have "nearest_scaled 3 (planeTiltX q0) = nearest_scaled 3 (planeTiltX q1)"
      by (rule ringKey_rounded [THEN conjunct2, THEN conjunct1])
    with nearest_scaled_flat_tilt [OF q0t] nearest_scaled_base_tilt [OF q1t]
    show False by simp
  qed
  have k12: "ringKey q1 \<noteq> ringKey q2"
  proof
    assume "ringKey q1 = ringKey q2"
    then have "nearest_scaled 3 (planeTiltX q1) = nearest_scaled 3 (planeTiltX q2)"
      by (rule ringKey_rounded [THEN conjunct2, THEN conjunct1])
    with nearest_scaled_flat_tilt [OF q2t] nearest_scaled_base_tilt [OF q1t]
    show False by simp
  qed
  note drawn = drawOrbits_three_keys [OF k01 k02 k12, of cx cy cam]
  have count: "length (drawOrbits [q0, q1, q2] cx cy cam ds) = 3"
    if "\<not> chainDisabled ds ''eth-mainnet''" "\<not> chainDisabled ds ''base-mainnet''" for ds
  proof -
    have "length (map fst (drawOrbits [q0, q1, q2] cx cy cam ds)) = 3"
      using that by (simp only: drawn) (simp add: qch)
    then show ?thesis by simp
  qed
  have none: "length (drawOrbits [q0, q1, q2] cx cy cam None) = 3"
    and empty: "length (drawOrbits [q0, q1, q2] cx cy cam (Some {})) = 3"
    by (rule count; simp add: chainDisabled_def)+
  have incr: "orbitRadius q0 < orbitRadius q1" "orbitRadius q1 < orbitRadius q2"
    using q0u q1r q2l st unfolding abs_le_iff by simp_all
  from incr k02 none empty count [of dis] drawn [of dis] show ?thesis
    by (simp add: qs ps tilts)
qed

lemma close_to_itself: "list_all2 (closeBody 0.01) ps ps"
  by (simp add: list_all2_same closeBody_def)

lemma nudged_close: "list_all2 (closeBody 0.01) (nudged ps) ps"
  by (simp add: nudged_def list_all2_map1 list_all2_same closeBody_def)

text \<open>
  C2, as stated, fails: the ring key contains the radius, and the radius depends on the
  rank. On a canvas of height 1000 the two eth-mainnet bodies have radii 100 and 420,
  hence different keys, and three rings are drawn, not two.
\<close>

theorem three_records_counterexample:
  "ringKey (createPlanets zero_draws example_interactions 400 300 800 1000 ! 0)
     \<noteq> ringKey (createPlanets zero_draws example_interactions 400 300 800 1000 ! 2)
   \<and> length (drawOrbits (createPlanets zero_draws example_interactions 400 300 800 1000) 400 300
         \<lparr>tiltX = 0.35, rotationY = 0\<rparr> None) = 3"
proof -
  have tx: "map txCount example_interactions = [10, 5, 1]"
    and ch: "map primaryChain example_interactions
      = [''eth-mainnet'', ''base-mainnet'', ''eth-mainnet'']"
    by (simp_all add: example_interactions_def)
  have h: "(239 :: real) \<le> 1000" by simp
  from three_records_rings [OF tx ch h close_to_itself, of zero_draws 400 300 800
      "\<lparr>tiltX = 0.35, rotationY = 0\<rparr>" None]
  show ?thesis by blast
qed

text \<open>
  C2, amended. Given three records with txCounts [10, 5, 1] and chains
  [eth-mainnet, base-mainnet, eth-mainnet] on a canvas at least 239 high, take the
  created bodies, or any bodies that differ from them by at most 0.01 in radius and
  tilts (so the rounding of double-precision arithmetic is covered). Their radii
  strictly increase with rank; the two eth-mainnet bodies are created with the same
  plane tilts but, having different radii, have different ring keys; and
  \<open>drawOrbits\<close> draws one ring for each body whose chain is not disabled: exactly 3
  rings when no set is passed, when the set is empty, and whenever neither chain is
  in it.
\<close>

theorem three_bodies_three_rings:
  assumes "map txCount interactions = [10, 5, 1]"
    and "map primaryChain interactions = [''eth-mainnet'', ''base-mainnet'', ''eth-mainnet'']"
    and "239 \<le> height"
    and "list_all2 (closeBody 0.01) qs (createPlanets rnd interactions cx cy width height)"
  shows "orbitRadius (qs ! 0) < orbitRadius (qs ! 1)
       \<and> orbitRadius (qs ! 1) < orbitRadius (qs ! 2)
       \<and> planeTiltX (createPlanets rnd interactions cx cy width height ! 0)
           = planeTiltX (createPlanets rnd interactions cx cy width height ! 2)
       \<and> planeTiltZ (createPlanets rnd interactions cx cy width height ! 0)
           = planeTiltZ (createPlanets rnd interactions cx cy width height ! 2)
       \<and> ringKey (qs ! 0) \<noteq> ringKey (qs ! 2)
       \<and> map fst (drawOrbits qs cx cy cam dis)
           = filter (\<lambda>p. \<not> chainDisabled dis (primaryChain (interaction p))) qs
       \<and> length (drawOrbits qs cx cy cam None) = 3
       \<and> length (drawOrbits qs cx cy cam (Some {})) = 3
       \<and> (\<not> chainDisabled dis ''eth-mainnet'' \<and> \<not> chainDisabled dis ''base-mainnet''
            \<longrightarrow> length (drawOrbits qs cx cy cam dis) = 3)"
  using assms by (rule three_records_rings)

theorem three_bodies_three_rings_witness:
  "orbitRadius (createPlanets zero_draws example_interactions 400 300 800 600 ! 0)
           < orbitRadius (createPlanets zero_draws example_interactions 400 300 800 600 ! 1)
   \<and> ringKey (createPlanets zero_draws example_interactions 400 300 800 600 ! 0)
           \<noteq> ringKey (createPlanets zero_draws example_interactions 400 300 800 600 ! 2)
   \<and> length (drawOrbits (createPlanets zero_draws example_interactions 400 300 800 600) 400 300
         \<lparr>tiltX = 0.35, rotationY = 0\<rparr> (Some {})) = 3
   \<and> length (drawOrbits (nudged (createPlanets zero_draws example_interactions 400 300 800 239))
         400 300 \<lparr>tiltX = 0.35, rotationY = 0\<rparr> (Some {})) = 3"
proof -
  have tx: "map txCount example_interactions = [10, 5, 1]"
    and ch: "map primaryChain example_interactions
      = [''eth-mainnet'', ''base-mainnet'', ''eth-mainnet'']"
    by (simp_all add: example_interactions_def)
  have h: "(239 :: real) \<le> 600" "(239 :: real) \<le> 239" by simp_all
  from three_bodies_three_rings [OF tx ch h(1) close_to_itself, of zero_draws 400 300 800
      "\<lparr>tiltX = 0.35, rotationY = 0\<rparr>" None]
    three_bodies_three_rings [OF tx ch h(2) nudged_close, of zero_draws 400 300 800
      "\<lparr>tiltX = 0.35, rotationY = 0\<rparr>" None]
  show ?thesis by blast
qed

subsection \<open>Draw order\<close>

lemma depthSort_descending: "sorted (rev (map pos_z (depthSort ps)))"
proof -
  have "sorted (map (\<lambda>p. - pos_z p) (depthSort ps))"
    unfolding depthSort_def by (rule sorted_sort_key)
  then have "sorted_wrt (\<lambda>p q. pos_z q \<le> pos_z p) (depthSort ps)"
    by (simp add: sorted_wrt_map)
  then show ?thesis
    by (simp add: sorted_wrt_rev sorted_wrt_map flip: rev_map)
qed

lemma depthSort_set: "set (depthSort ps) = set ps" and depthSort_length: "length (depthSort ps) = length ps"
  by (simp_all add: depthSort_def)

lemma three_depths_order:
  fixes d1 d2 d3 :: real
  assumes "sorted (rev zs)" "length zs = 3" "set zs = {d1, d2, d3}" "d1 < d2" "d2 < d3"
  shows "zs = [d3, d2, d1]"
proof -
  have "card (set zs) = length zs" using assms by simp
  then have "distinct zs" by (rule card_distinct)
  then have "distinct (rev zs)" by simp
  moreover have "set (rev zs) = set [d1, d2, d3]" using assms by simp
  moreover have "sorted [d1, d2, d3]" "distinct [d1, d2, d3]" using assms by simp_all
  ultimately have "rev zs = [d1, d2, d3]"
    using assms(1) by (metis sorted_distinct_set_unique)
  then have "rev (rev zs) = rev [d1, d2, d3]" by (rule arg_cong)
  then show ?thesis by simp
qed

lemma drawBody_planet: "drawn_planet (drawBody p) = p"
  by (simp add: drawBody_def Let_def)

lemma advancePlanet_interaction: "interaction (advancePlanet cx cy cam p) = interaction p"
  by (simp add: advancePlanet_def Let_def)

lemma depthSort_three:
  assumes "length planets = 3" and "set planets = {a, b, c}"
    and "pos_z a = d1" and "pos_z b = d2" and "pos_z c = d3"
    and "d1 < d2" and "d2 < d3"
  shows "depthSort planets = [c, b, a]"
proof -
  define zs where "zs = map pos_z (depthSort planets)"
  have "set zs = pos_z ` set planets"
    by (simp add: zs_def depthSort_set)
  then have "set zs = {d1, d2, d3}"
    using assms(2-5) by auto
  moreover have "length zs = 3"
    using assms(1) by (simp add: zs_def depthSort_length)
  moreover have "sorted (rev zs)"
    unfolding zs_def by (rule depthSort_descending)
  ultimately have zs: "zs = [d3, d2, d1]"
    using assms(6,7) by (intro three_depths_order)
  then obtain x y z where xyz: "depthSort planets = [x, y, z]"
    "pos_z x = d3" "pos_z y = d2" "pos_z z = d1"
    by (auto simp: zs_def map_eq_Cons_conv)
  have "set (depthSort planets) = {a, b, c}"
    using assms(2) by (simp add: depthSort_set)
  with xyz(1) have mem: "x \<in> {a, b, c}" "y \<in> {a, b, c}" "z \<in> {a, b, c}"
    by auto
  have "x \<noteq> a" "x \<noteq> b" "y \<noteq> a" "y \<noteq> c" "z \<noteq> b" "z \<noteq> c"
    using xyz(2-4) assms(3-7) by fastforce+
  with mem have "x = c" "y = b" "z = a"
    by simp_all
  with xyz(1) show ?thesis by simp
qed

text \<open>
  C5. Let the scene hold three bodies a, b, c, in any order, whose depths after this
  frame's projection are \<open>d1 < d2 < d3\<close>, under any camera. For every set of disabled
  chains the draws are exactly the enabled ones of c, b, a, in this order (farthest
  first). When none of them is disabled, in particular when no set or the empty set
  is passed, the depths of the draws are \<open>d3, d2, d1\<close>.
\<close>

theorem drawPlanets_farthest_first:
  assumes "length planets = 3" and "set planets = {a, b, c}"
    and "pos_z (advancePlanet cx cy cam a) = d1"
    and "pos_z (advancePlanet cx cy cam b) = d2"
    and "pos_z (advancePlanet cx cy cam c) = d3"
    and "d1 < d2" and "d2 < d3"
  shows "snd (drawPlanets planets cx cy cam dis) =
           map drawBody
             (filter (\<lambda>p. \<not> chainDisabled dis (primaryChain (interaction p)))
                [advancePlanet cx cy cam c, advancePlanet cx cy cam b, advancePlanet cx cy cam a])
       \<and> map (\<lambda>d. pos_z (drawn_planet d)) (snd (drawPlanets planets cx cy cam None))
           = [d3, d2, d1]
       \<and> map (\<lambda>d. pos_z (drawn_planet d)) (snd (drawPlanets planets cx cy cam (Some {})))
           = [d3, d2, d1]
       \<and> ((\<forall>p \<in> set planets. \<not> chainDisabled dis (primaryChain (interaction p))) \<longrightarrow>
            map (\<lambda>d. pos_z (drawn_planet d)) (snd (drawPlanets planets cx cy cam dis))
              = [d3, d2, d1])"
proof -
  define moved where "moved = map (advancePlanet cx cy cam) planets"
  have "length moved = 3"
    using assms(1) by (simp add: moved_def)
  moreover have "set moved = {advancePlanet cx cy cam a, advancePlanet cx cy cam b,
      advancePlanet cx cy cam c}"
    using assms(2) by (simp add: moved_def)
  ultimately have order: "depthSort moved =
      [advancePlanet cx cy cam c, advancePlanet cx cy cam b, advancePlanet cx cy cam a]"
    using assms(3-7) by (rule depthSort_three)
  have draws: "snd (drawPlanets planets cx cy cam ds) =
      map drawBody
        (filter (\<lambda>p. \<not> chainDisabled ds (primaryChain (interaction p)))
           [advancePlanet cx cy cam c, advancePlanet cx cy cam b, advancePlanet cx cy cam a])"
    for ds
    using order by (simp add: drawPlanets_def Let_def moved_def)
  have all3: "map (\<lambda>d. pos_z (drawn_planet d)) (snd (drawPlanets planets cx cy cam ds))
      = [d3, d2, d1]"
    if "\<forall>p \<in> set planets. \<not> chainDisabled ds (primaryChain (interaction p))" for ds
    using that assms(2-5)
    by (simp add: draws advancePlanet_interaction drawBody_planet)
  have none: "\<forall>p \<in> set planets. \<not> chainDisabled None (primaryChain (interaction p))"
    and empty: "\<forall>p \<in> set planets. \<not> chainDisabled (Some {}) (primaryChain (interaction p))"
    by (simp_all add: chainDisabled_def)
  from draws [of dis] all3 [OF none] all3 [OF empty] all3 [of dis] show ?thesis
    by blast
qed

lemma example_body_depth:
  "pos_z (advancePlanet 0 0 turned_camera (example_body r)) = - r"
  by (simp add: advancePlanet_def example_body_def turned_camera_def projectOrbitPoint_def Let_def)

theorem drawPlanets_farthest_first_witness:
  "map (\<lambda>d. pos_z (drawn_planet d))
        (snd (drawPlanets [example_body 200, example_body 100, example_body 300] 0 0
           turned_camera (Some {}))) = [- 100, - 200, - 300]
   \<and> map (\<lambda>d. orbitRadius (drawn_planet d))
        (snd (drawPlanets [example_body 200, example_body 100, example_body 300] 0 0
           turned_camera (Some {''base-mainnet''}))) = [100, 200, 300]
   \<and> snd (drawPlanets [example_body 200, example_body 100, example_body 300] 0 0
           turned_camera (Some {''eth-mainnet''})) = []"
proof -
  have len: "length [example_body 200, example_body 100, example_body 300] = 3"
    by simp
  have st: "set [example_body 200, example_body 100, example_body 300]
      = {example_body 300, example_body 200, example_body 100}"
    by auto
  note th = drawPlanets_farthest_first [OF len st example_body_depth example_body_depth
      example_body_depth]
  have lt: "(- 300 :: real) < - 200" "(- 200 :: real) < - 100" by simp_all
  have ch: "primaryChain (interaction (example_body r)) = ''eth-mainnet''" for r
    by (simp add: example_body_def example_interactions_def)
  have rad: "orbitRadius (advancePlanet 0 0 turned_camera (example_body r)) = r" for r
    by (simp add: advancePlanet_def example_body_def Let_def)
  from th [OF lt, of "Some {}"]
  have a: "map (\<lambda>d. pos_z (drawn_planet d))
        (snd (drawPlanets [example_body 200, example_body 100, example_body 300] 0 0
           turned_camera (Some {}))) = [- 100, - 200, - 300]"
    by blast
  from th [OF lt, of "Some {''base-mainnet''}"]
  have b: "map (\<lambda>d. orbitRadius (drawn_planet d))
        (snd (drawPlanets [example_body 200, example_body 100, example_body 300] 0 0
           turned_camera (Some {''base-mainnet''}))) = [100, 200, 300]"
    by (simp add: chainDisabled_def advancePlanet_interaction ch drawBody_planet rad)
  from th [OF lt, of "Some {''eth-mainnet''}"]
  have c: "snd (drawPlanets [example_body 200, example_body 100, example_body 300] 0 0
           turned_camera (Some {''eth-mainnet''})) = []"
    by (simp add: chainDisabled_def advancePlanet_interaction ch)
  from a b c show ?thesis by simp
qed

subsection \<open>Particles\<close>

lemma updateShips_loop_length:
  "length (updateShips_loop cx cy te planets k ships) = length ships"
  by (induction ships arbitrary: k) simp_all

lemma updateShips_loop_nth:
  "i < length ships \<Longrightarrow>
   updateShips_loop cx cy te planets k ships ! i =
     moveShip cx cy te (planetAt planets (k + i)) (ships ! i)"
proof (induction ships arbitrary: k i)
  case Nil
  then show ?case by simp
next
  case (Cons s ss)
  show ?case
  proof (cases i)
    case 0
    then show ?thesis by simp
  next
    case (Suc j)
    with Cons.prems have "j < length ss" by simp
    from Cons.IH [OF this, of "k + 1"] Suc show ?thesis by simp
  qed
qed

lemma aimAt_keeps:
  "progress (aimAt cx cy pl s) = progress s"
  "trail (aimAt cx cy pl s) = trail s"
  "direction (aimAt cx cy pl s) = direction s"
  "speed (aimAt cx cy pl s) = speed s"
  by (simp_all add: aimAt_def split: option.split)

lemma reassociate_loop_length:
  "length (reassociate_loop cx cy planets oi ii ships) = length ships"
  by (induction ships arbitrary: oi ii) simp_all

lemma reassociate_loop_keeps:
  "i < length ships \<Longrightarrow>
   progress (reassociate_loop cx cy planets oi ii ships ! i) = progress (ships ! i)
   \<and> trail (reassociate_loop cx cy planets oi ii ships ! i) = trail (ships ! i)"
proof (induction ships arbitrary: oi ii i)
  case Nil
  then show ?case by simp
next
  case (Cons s ss)
  show ?case
  proof (cases i)
    case 0
    then show ?thesis by (simp add: aimAt_keeps)
  next
    case (Suc j)
    with Cons.prems have "j < length ss" by simp
    from Cons.IH [OF this] Suc show ?thesis by simp
  qed
qed

lemma moveShip_wrap_head:
  assumes "progress s + speed s > 1"
  shows "progress (moveShip cx cy te pl s) = 0"
    and "trail (moveShip cx cy te pl s) =
      [\<lparr>tp_x = (case pl of None \<Rightarrow> fromX s
                       | Some p \<Rightarrow> if direction s = outbound then cx else pos_x p),
        tp_y = (case pl of None \<Rightarrow> fromY s
                       | Some p \<Rightarrow> if direction s = outbound then cy else pos_y p),
        alpha = (if te then 1 - 0.03 else 1)\<rparr>]"
  using assms by (simp_all add: moveShip_def Let_def aimAt_def split: option.split)

text \<open>
  C3, as stated, fails: after the step the trail is not empty. The ship below wraps to
  progress 0 and its trail is the single new head point at the origin (400, 300).
\<close>

theorem wrap_empty_trail_counterexample:
  "progress wrapping_ship = 0.999 \<and> speed wrapping_ship = 0.01
   \<and> progress (updateShips [wrapping_ship] [example_body 100] 400 300 True ! 0) = 0
   \<and> trail (updateShips [wrapping_ship] [example_body 100] 400 300 True ! 0)
       = [\<lparr>tp_x = 400, tp_y = 300, alpha = 0.97\<rparr>]"
  by (simp add: wrapping_ship_def updateShips_def reassociateShips_def moveShip_def
      planetAt_def aimAt_def Let_def)

text \<open>
  C3, amended. A ship with progress 0.999 and speed 0.01 leaves one update step with
  progress 0 and a trail of exactly one point, the new head: the wrap empties the
  trail, and the same step then records the head at the start of the ship's path (the
  origin for an outbound ship, the body the loop pairs it with for an inbound one, the
  ship's own start when there are no bodies), with alpha \<open>1 - 0.03\<close> when trails are
  enabled and 1 when they are not.
\<close>

theorem wrap_leaves_head_only:
  assumes "i < length ships"
    and "progress (ships ! i) = 0.999" and "speed (ships ! i) = 0.01"
  shows "length (updateShips ships planets cx cy te) = length ships
       \<and> progress (updateShips ships planets cx cy te ! i) = 0
       \<and> trail (updateShips ships planets cx cy te ! i) =
           [\<lparr>tp_x = (if planets = [] then fromX (ships ! i)
                     else if direction (ships ! i) = outbound then cx
                     else pos_x (planets ! (i mod length planets))),
             tp_y = (if planets = [] then fromY (ships ! i)
                     else if direction (ships ! i) = outbound then cy
                     else pos_y (planets ! (i mod length planets))),
             alpha = (if te then 1 - 0.03 else 1)\<rparr>]"
proof -
  define moved where "moved = updateShips_loop cx cy te planets 0 ships"
  have len: "length moved = length ships"
    by (simp add: moved_def updateShips_loop_length)
  have m: "moved ! i = moveShip cx cy te (planetAt planets i) (ships ! i)"
    using assms(1) by (simp add: moved_def updateShips_loop_nth)
  have over: "progress (ships ! i) + speed (ships ! i) > 1"
    using assms(2,3) by simp
  have u: "updateShips ships planets cx cy te = reassociate_loop cx cy planets 0 0 moved"
    by (simp add: updateShips_def reassociateShips_def moved_def)
  have keep: "progress (reassociate_loop cx cy planets 0 0 moved ! i) = progress (moved ! i)"
    "trail (reassociate_loop cx cy planets 0 0 moved ! i) = trail (moved ! i)"
    using reassociate_loop_keeps [of i moved cx cy planets 0 0] assms(1) len by simp_all
  have p: "progress (updateShips ships planets cx cy te ! i) = 0"
    by (simp add: u keep m moveShip_wrap_head(1) [OF over])
  have t: "trail (updateShips ships planets cx cy te ! i) =
      [\<lparr>tp_x = (case planetAt planets i of None \<Rightarrow> fromX (ships ! i)
                | Some p \<Rightarrow> if direction (ships ! i) = outbound then cx else pos_x p),
        tp_y = (case planetAt planets i of None \<Rightarrow> fromY (ships ! i)
                | Some p \<Rightarrow> if direction (ships ! i) = outbound then cy else pos_y p),
        alpha = (if te then 1 - 0.03 else 1)\<rparr>]"
    by (simp only: u keep m moveShip_wrap_head(2) [OF over])
  have l: "length (updateShips ships planets cx cy te) = length ships"
    by (simp add: u reassociate_loop_length len)
  from p l show ?thesis
    by (simp add: t planetAt_def)
qed

theorem wrap_leaves_head_only_witness:
  "progress (updateShips [wrapping_ship] [example_body 100] 400 300 True ! 0) = 0
   \<and> trail (updateShips [wrapping_ship] [example_body 100] 400 300 True ! 0)
       = [\<lparr>tp_x = 400, tp_y = 300, alpha = 0.97\<rparr>]
   \<and> trail (updateShips [wrapping_ship\<lparr>direction := inbound\<rparr>]
         [(example_body 100)\<lparr>pos_x := 450, pos_y := 320\<rparr>] 400 300 True ! 0)
       = [\<lparr>tp_x = 450, tp_y = 320, alpha = 0.97\<rparr>]"
  using wrap_leaves_head_only [of 0 "[wrapping_ship]" "[example_body 100]" 400 300 True]
    wrap_leaves_head_only [of 0 "[wrapping_ship\<lparr>direction := inbound\<rparr>]"
      "[(example_body 100)\<lparr>pos_x := 450, pos_y := 320\<rparr>]" 400 300 True]
  by (simp add: wrapping_ship_def)

lemma upt_small: "[0..<1] = [0]" "[0..<2] = [0, 1]" "[0..<3] = [0, 1, 2]"
  by (simp_all add: eval_nat_numeral)

text \<open>
  C4 at a failing input. Body a (at (500, 300)) creates two outbound ships, body b
  (at (400, 500)) one. After one update the second ship of body a points at body b and
  the ship of body b points at body a: \<open>reassociateShips\<close> gives the k-th outbound
  ship the body \<open>k mod n\<close>, not the body that created it.
\<close>

theorem ship_follows_wrong_body:
  "map (\<lambda>s. (direction s, toX s, toY s))
     (createShips zero_draws epoch [sender_a, sender_b] 400 300 None)
     = [(outbound, 500, 300), (outbound, 500, 300), (outbound, 400, 500)]
   \<and> map (\<lambda>s. (direction s, toX s, toY s))
       (updateShips (createShips zero_draws epoch [sender_a, sender_b] 400 300 None)
          [sender_a, sender_b] 400 300 True)
     = [(outbound, 500, 300), (outbound, 400, 500), (outbound, 500, 300)]"
  by (simp add: createShips_def shipsOfPlanet_def Let_def sender_a_def sender_b_def
      example_interactions_def outboundShip_def inboundShip_def upt_small
      updateShips_def reassociateShips_def moveShip_def planetAt_def aimAt_def
      example_body_def zero_draws_def)

subsection \<open>Hit-testing\<close>

lemma hitBodies_snoc:
  "hitBodies dis w found k (ps @ [p]) =
     (if primaryChain (interaction p) \<notin> dis
         \<and> distanceTo w (pos_x p) (pos_y p) < body_size p + 12
      then Some (k + length ps) else hitBodies dis w found k ps)"
  by (induction ps arbitrary: found k) simp_all

lemma bodyHits_snoc:
  "bodyHits dis w (ps @ [p]) =
     bodyHits dis w ps @
     (if primaryChain (interaction p) \<notin> dis
         \<and> distanceTo w (pos_x p) (pos_y p) < body_size p + 12
      then [length ps] else [])"
proof -
  have "filter (\<lambda>i. primaryChain (interaction ((ps @ [p]) ! i)) \<notin> dis
               \<and> distanceTo w (pos_x ((ps @ [p]) ! i)) (pos_y ((ps @ [p]) ! i))
                   < body_size ((ps @ [p]) ! i) + 12) [0 ..< length ps]
      = filter (\<lambda>i. primaryChain (interaction (ps ! i)) \<notin> dis
               \<and> distanceTo w (pos_x (ps ! i)) (pos_y (ps ! i))
                   < body_size (ps ! i) + 12) [0 ..< length ps]"
    by (rule filter_cong) (simp_all add: nth_append)
  then show ?thesis
    by (simp add: bodyHits_def)
qed

lemma hitBodies_last:
  "hitBodies dis w None 0 ps =
     (if bodyHits dis w ps = [] then None else Some (last (bodyHits dis w ps)))"
proof (induction ps rule: rev_induct)
  case Nil
  then show ?case by (simp add: bodyHits_def)
next
  case (snoc p ps)
  then show ?case
    by (simp add: hitBodies_snoc bodyHits_snoc)
qed

lemma bodyHits_enabled:
  assumes "i \<in> set (bodyHits dis w ps)"
  shows "i < length ps \<and> primaryChain (interaction (ps ! i)) \<notin> dis
       \<and> distanceTo w (pos_x (ps ! i)) (pos_y (ps ! i)) < body_size (ps ! i) + 12"
  using assms by (simp add: bodyHits_def)

lemma sampleStep_found:
  assumes "snd (foldl (sampleStep w cx cy cam thr i p) st ks) = Some j"
  shows "snd st = Some j \<or> (j = i \<and> (\<exists>k \<in> set ks. sampleDistance w cx cy cam p k < thr))"
  using assms
proof (induction ks arbitrary: st)
  case Nil
  then show ?case by simp
next
  case (Cons k ks)
  from Cons.IH [OF Cons.prems [simplified]]
  show ?case
    by (auto simp: sampleStep_def Let_def split: if_splits)
qed

lemma hitRings_found:
  assumes "snd (hitRings dis w cx cy cam thr st (length pre) ps) = Some j"
  shows "snd st = Some j \<or> ringHit dis w cx cy cam thr (pre @ ps) j"
  using assms
proof (induction ps arbitrary: st pre)
  case Nil
  then show ?case by simp
next
  case (Cons p ps)
  show ?case
  proof (cases "primaryChain (interaction p) \<in> dis")
    case True
    with Cons.prems
    have "snd (hitRings dis w cx cy cam thr st (length (pre @ [p])) ps) = Some j"
      by simp
    from Cons.IH [OF this] show ?thesis by simp
  next
    case False
    define st' where "st' = foldl (sampleStep w cx cy cam thr (length pre) p) st [0 ..< orbitSamples]"
    from False Cons.prems
    have "snd (hitRings dis w cx cy cam thr st' (length (pre @ [p])) ps) = Some j"
      by (simp add: st'_def)
    from Cons.IH [OF this]
    consider "snd st' = Some j" | "ringHit dis w cx cy cam thr (pre @ p # ps) j"
      by auto
    then show ?thesis
    proof cases
      case 1
      from sampleStep_found [OF 1 [unfolded st'_def]]
      show ?thesis
        using False by (auto simp: ringHit_def)
    next
      case 2
      then show ?thesis by simp
    qed
  qed
qed

lemma sampleStep_paired:
  assumes "fst st \<noteq> None \<longrightarrow> snd st \<noteq> None"
  shows "fst (sampleStep w cx cy cam thr i p st k) \<noteq> None
           \<longrightarrow> snd (sampleStep w cx cy cam thr i p st k) \<noteq> None"
    and "snd st \<noteq> None \<longrightarrow> snd (sampleStep w cx cy cam thr i p st k) \<noteq> None"
    and "sampleDistance w cx cy cam p k < thr
           \<longrightarrow> snd (sampleStep w cx cy cam thr i p st k) \<noteq> None"
  using assms by (auto simp: sampleStep_def Let_def split: option.splits)

lemma samples_paired:
  assumes "fst st \<noteq> None \<longrightarrow> snd st \<noteq> None"
  shows "(fst (foldl (sampleStep w cx cy cam thr i p) st ks) \<noteq> None
            \<longrightarrow> snd (foldl (sampleStep w cx cy cam thr i p) st ks) \<noteq> None)
       \<and> (snd st \<noteq> None \<or> (\<exists>k \<in> set ks. sampleDistance w cx cy cam p k < thr)
            \<longrightarrow> snd (foldl (sampleStep w cx cy cam thr i p) st ks) \<noteq> None)"
  using assms
proof (induction ks arbitrary: st)
  case Nil
  then show ?case by simp
next
  case (Cons k ks)
  note step = sampleStep_paired [OF Cons.prems, where w = w and cx = cx and cy = cy
      and cam = cam and thr = thr and i = i and p = p and k = k]
  from Cons.IH [OF step(1)] step(2,3) show ?case
    by auto
qed

lemma hitRings_complete:
  assumes "fst st \<noteq> None \<longrightarrow> snd st \<noteq> None"
    and "snd st \<noteq> None \<or> (\<exists>j. ringHit dis w cx cy cam thr (pre @ ps) j \<and> length pre \<le> j)"
  shows "snd (hitRings dis w cx cy cam thr st (length pre) ps) \<noteq> None"
  using assms
proof (induction ps arbitrary: st pre)
  case Nil
  then show ?case by (auto simp: ringHit_def)
next
  case (Cons p ps)
  show ?case
  proof (cases "primaryChain (interaction p) \<in> dis")
    case True
    have "snd st \<noteq> None \<or> (\<exists>j. ringHit dis w cx cy cam thr ((pre @ [p]) @ ps) j
        \<and> length (pre @ [p]) \<le> j)"
    proof (cases "snd st \<noteq> None")
      case True
      then show ?thesis by simp
    next
      case False
      with Cons.prems(2) obtain j where j: "ringHit dis w cx cy cam thr (pre @ p # ps) j"
        "length pre \<le> j" by auto
      with True have "j \<noteq> length pre" by (auto simp: ringHit_def)
      with j show ?thesis by auto
    qed
    from Cons.IH [OF Cons.prems(1) this] True show ?thesis by simp
  next
    case False
    define st' where "st' = foldl (sampleStep w cx cy cam thr (length pre) p) st [0 ..< orbitSamples]"
    note sp = samples_paired [OF Cons.prems(1), where w = w and cx = cx and cy = cy
        and cam = cam and thr = thr and i = "length pre" and p = p and ks = "[0 ..< orbitSamples]"]
    have "snd st' \<noteq> None \<or> (\<exists>j. ringHit dis w cx cy cam thr ((pre @ [p]) @ ps) j
        \<and> length (pre @ [p]) \<le> j)"
    proof (cases "snd st \<noteq> None")
      case True
      with sp show ?thesis by (simp add: st'_def)
    next
      case False
      with Cons.prems(2) obtain j where j: "ringHit dis w cx cy cam thr (pre @ p # ps) j"
        "length pre \<le> j" by auto
      show ?thesis
      proof (cases "j = length pre")
        case True
        with j have "\<exists>k \<in> set [0 ..< orbitSamples]. sampleDistance w cx cy cam p k < thr"
          by (auto simp: ringHit_def)
        with sp show ?thesis by (simp add: st'_def)
      next
        case False
        with j show ?thesis by auto
      qed
    qed
    moreover have "fst st' \<noteq> None \<longrightarrow> snd st' \<noteq> None"
      using sp by (simp add: st'_def)
    ultimately have "snd (hitRings dis w cx cy cam thr st' (length (pre @ [p])) ps) \<noteq> None"
      by (intro Cons.IH)
    with False show ?thesis by (simp add: st'_def)
  qed
qed

text \<open>
  C7. With the pointer converted to world coordinates (un-zoomed; the zoom is positive):
  if some enabled body lies within \<open>size + 12\<close> of the pointer, the hover is the last
  such body in iteration order; otherwise a hover can only be a body on an enabled chain
  one of whose 60 ring samples is within \<open>10 / zoom\<close> of the pointer, and there is a
  hover whenever such a body exists; and the hover is never a body of a disabled chain,
  wherever the pointer is.
\<close>

theorem hitTest_precedence:
  assumes "0 < zoom"
  shows "(bodyHits dis (screenToWorld cx cy zoom mx my) ps \<noteq> [] \<longrightarrow>
            hitTest ps dis cx cy zoom cam mx my
              = Some (last (bodyHits dis (screenToWorld cx cy zoom mx my) ps)))
       \<and> (bodyHits dis (screenToWorld cx cy zoom mx my) ps = [] \<longrightarrow>
            (\<forall>i. hitTest ps dis cx cy zoom cam mx my = Some i \<longrightarrow>
               ringHit dis (screenToWorld cx cy zoom mx my) cx cy cam (10 / zoom) ps i))
       \<and> (bodyHits dis (screenToWorld cx cy zoom mx my) ps = [] \<longrightarrow>
            (\<exists>i. ringHit dis (screenToWorld cx cy zoom mx my) cx cy cam (10 / zoom) ps i) \<longrightarrow>
            hitTest ps dis cx cy zoom cam mx my \<noteq> None)
       \<and> (\<forall>i. hitTest ps dis cx cy zoom cam mx my = Some i \<longrightarrow>
               i < length ps \<and> primaryChain (interaction (ps ! i)) \<notin> dis)"
proof -
  define w where "w = screenToWorld cx cy zoom mx my"
  have body: "hitTest ps dis cx cy zoom cam mx my = Some (last (bodyHits dis w ps))"
    if "bodyHits dis w ps \<noteq> []"
    using that by (simp add: hitTest_def Let_def w_def hitBodies_last)
  have ring: "ringHit dis w cx cy cam (10 / zoom) ps i"
    if "bodyHits dis w ps = []" and "hitTest ps dis cx cy zoom cam mx my = Some i" for i
  proof -
    from that have "snd (hitRings dis w cx cy cam (10 / zoom) (None, None)
        (length ([] :: Planet list)) ps) = Some i"
      by (simp add: hitTest_def Let_def w_def hitBodies_last)
    from hitRings_found [OF this] show ?thesis by simp
  qed
  have enabled: "i < length ps \<and> primaryChain (interaction (ps ! i)) \<notin> dis"
    if h: "hitTest ps dis cx cy zoom cam mx my = Some i" for i
  proof (cases "bodyHits dis w ps = []")
    case True
    from ring [OF True h] show ?thesis by (simp add: ringHit_def)
  next
    case False
    from body [OF False] h have "i = last (bodyHits dis w ps)" by simp
    with False have "i \<in> set (bodyHits dis w ps)" by simp
    from bodyHits_enabled [OF this] show ?thesis by simp
  qed
  have complete: "hitTest ps dis cx cy zoom cam mx my \<noteq> None"
    if "bodyHits dis w ps = []" and "\<exists>i. ringHit dis w cx cy cam (10 / zoom) ps i"
  proof -
    have "snd (hitRings dis w cx cy cam (10 / zoom) (None, None) (length ([] :: Planet list)) ps)
        \<noteq> None"
    proof (rule hitRings_complete)
      show "fst (None :: real option, None :: nat option) \<noteq> None
          \<longrightarrow> snd (None :: real option, None :: nat option) \<noteq> None"
        by simp
      show "snd (None :: real option, None :: nat option) \<noteq> None
          \<or> (\<exists>j. ringHit dis w cx cy cam (10 / zoom) ([] @ ps) j
                \<and> length ([] :: Planet list) \<le> j)"
        using that(2) by simp
    qed
    with that(1) show ?thesis
      by (simp add: hitTest_def Let_def w_def hitBodies_last)
  qed
  from body ring complete enabled show ?thesis
    unfolding w_def by blast
qed

theorem hitTest_precedence_witness:
  "(0::real) < 2
   \<and> hitTest hover_bodies {''base-mainnet''} 400 300 2 turned_camera 600 300 \<noteq> Some 0
   \<and> hitTest hover_bodies {''base-mainnet''} 400 300 2 turned_camera (- 200) 300 = Some 1"
proof -
  have z: "(0::real) < 2" by simp
  have "primaryChain (interaction (hover_bodies ! 0)) \<in> {''base-mainnet''}"
    by (simp add: hover_bodies_def example_interactions_def)
  with hitTest_precedence [OF z, of "{''base-mainnet''}" 400 300 600 300 hover_bodies turned_camera]
  have a: "hitTest hover_bodies {''base-mainnet''} 400 300 2 turned_camera 600 300 \<noteq> Some 0"
    by blast
  have "bodyHits {''base-mainnet''} (screenToWorld 400 300 2 (- 200) 300) hover_bodies = [1]"
    by (simp add: bodyHits_def screenToWorld_def distanceTo_def hover_bodies_def
        example_interactions_def example_body_def upt_small Let_def)
  with hitTest_precedence [OF z, of "{''base-mainnet''}" 400 300 "- 200" 300 hover_bodies turned_camera]
  have b: "hitTest hover_bodies {''base-mainnet''} 400 300 2 turned_camera (- 200) 300 = Some 1"
    by simp
  from z a b show ?thesis by simp
qed

subsection \<open>Bodies and particles are capped\<close>

lemma shipsOfPlanet_counts:
  "length (filter (\<lambda>s. direction s = outbound) (shipsOfPlanet rnd gt cx cy rng k p))
     = min (sentCount (interaction p)) 3"
  "length (filter (\<lambda>s. direction s = inbound) (shipsOfPlanet rnd gt cx cy rng k p))
     = min (receivedCount (interaction p)) 3"
  "length (shipsOfPlanet rnd gt cx cy rng k p)
     = min (sentCount (interaction p)) 3 + min (receivedCount (interaction p)) 3"
  by (simp_all add: shipsOfPlanet_def Let_def outboundShip_def inboundShip_def)

lemma createShips_loop_concat:
  "\<exists>ks. length ks = length ps \<and>
     createShips_loop rnd gt cx cy rng k ps
       = concat (map (\<lambda>kp. shipsOfPlanet rnd gt cx cy rng (fst kp) (snd kp)) (zip ks ps))"
proof (induction ps arbitrary: k)
  case Nil
  then show ?case by simp
next
  case (Cons p ps)
  from Cons.IH [of "k + 2 * length (shipsOfPlanet rnd gt cx cy rng k p)"]
  obtain ks where "length ks = length ps"
    "createShips_loop rnd gt cx cy rng (k + 2 * length (shipsOfPlanet rnd gt cx cy rng k p)) ps
       = concat (map (\<lambda>kp. shipsOfPlanet rnd gt cx cy rng (fst kp) (snd kp)) (zip ks ps))"
    by blast
  then have "length (k # ks) = length (p # ps) \<and>
     createShips_loop rnd gt cx cy rng k (p # ps)
       = concat (map (\<lambda>kp. shipsOfPlanet rnd gt cx cy rng (fst kp) (snd kp)) (zip (k # ks) (p # ps)))"
    by (simp add: Let_def)
  then show ?case by blast
qed

lemma createShips_loop_bound:
  "length (createShips_loop rnd gt cx cy rng k ps) \<le> 6 * length ps"
proof (induction ps arbitrary: k)
  case Nil
  then show ?case by simp
next
  case (Cons p ps)
  have "length (shipsOfPlanet rnd gt cx cy rng k p) \<le> 6"
    by (simp add: shipsOfPlanet_counts)
  with Cons.IH [of "k + 2 * length (shipsOfPlanet rnd gt cx cy rng k p)"]
  show ?case by (simp add: Let_def)
qed

lemma createShips_loop_directions:
  "length (filter (\<lambda>s. direction s = outbound) (createShips_loop rnd gt cx cy rng k ps))
     = (\<Sum>p\<leftarrow>ps. min (sentCount (interaction p)) 3)"
  "length (filter (\<lambda>s. direction s = inbound) (createShips_loop rnd gt cx cy rng k ps))
     = (\<Sum>p\<leftarrow>ps. min (receivedCount (interaction p)) 3)"
  by (induction ps arbitrary: k) (simp_all add: Let_def shipsOfPlanet_counts(1,2))

lemma byTxCountDesc_descending: "sorted (rev (map txCount (byTxCountDesc ws)))"
proof -
  have "sorted (map (\<lambda>w. - int (txCount w)) (byTxCountDesc ws))"
    unfolding byTxCountDesc_def by (rule sorted_sort_key)
  then have "sorted_wrt (\<lambda>v w. txCount w \<le> txCount v) (byTxCountDesc ws)"
    by (simp add: sorted_wrt_map)
  then show ?thesis
    by (simp add: sorted_wrt_rev sorted_wrt_map flip: rev_map)
qed

lemma descending_take:
  fixes xs :: "nat list"
  assumes "sorted (rev xs)"
  shows "sorted (rev (take n xs))"
proof -
  from assms have "sorted_wrt (\<lambda>a b. b \<le> a) xs"
    by (simp add: sorted_wrt_rev)
  then have "sorted_wrt (\<lambda>a b. b \<le> a) (take n xs)"
    by (rule sorted_wrt_take)
  then show ?thesis
    by (simp add: sorted_wrt_rev)
qed

lemma buildInteractions_capped:
  "length (buildInteractions wallet txs) \<le> 20"
  by (simp add: buildInteractions_def Let_def)

lemma buildInteractions_descending:
  "sorted (rev (map txCount (buildInteractions wallet txs)))"
proof -
  have "map txCount (buildInteractions wallet txs) =
      take 20 (map txCount (byTxCountDesc (map (\<lambda>ke. toInteraction (snd ke))
        (buildMap (toLowerCase wallet) [] txs))))"
    by (simp add: buildInteractions_def Let_def take_map)
  then show ?thesis
    by (simp only: descending_take byTxCountDesc_descending)
qed

lemma lower_examples: "toLowerCase ''0xAB'' = ''0xab''" "toLowerCase ''0xC2'' = ''0xc2''"
  "toLowerCase ''0xab'' = ''0xab''" "toLowerCase ''0xc1'' = ''0xc1''" "toLowerCase ''0xc2'' = ''0xc2''"
  "toLowerCase ''0xd1'' = ''0xd1''" "toLowerCase ''0xd2'' = ''0xd2''" "toLowerCase ''0xAb'' = ''0xab''"
  by (simp_all add: toLowerCase_def lower_char_def)

lemma example_entries:
  "map snd (buildMap ''0xab'' [] example_transactions) =
    [\<lparr>e_address = ''0xc1'', e_label = None, e_totalValueUsd = 1, e_txCount = 1,
       e_sentCount = 1, e_receivedCount = 0, e_chains = [''eth-mainnet''],
       primaryChainCount = [(''eth-mainnet'', 1)],
       e_firstInteraction = ''2024-01-02'', e_lastInteraction = ''2024-01-02''\<rparr>,
     \<lparr>e_address = ''0xc2'', e_label = None, e_totalValueUsd = 2, e_txCount = 2,
       e_sentCount = 1, e_receivedCount = 1, e_chains = [''base-mainnet''],
       primaryChainCount = [(''base-mainnet'', 2)],
       e_firstInteraction = ''2024-01-01'', e_lastInteraction = ''2024-01-03''\<rparr>]"
  by (simp add: example_transactions_def tx_example_def Let_def
      counterpartyOf_def truthy_def lower_examples newEntry_def recordTx_def
      cong: let_weak_cong)

lemma example_built:
  "buildInteractions ''0xAb'' example_transactions =
    [\<lparr>address = ''0xc2'', label = None, totalValueUsd = 2, txCount = 2, sentCount = 1,
       receivedCount = 1, chains = [''base-mainnet''], primaryChain = ''base-mainnet'',
       firstInteraction = ''2024-01-01'', lastInteraction = ''2024-01-03''\<rparr>,
     \<lparr>address = ''0xc1'', label = None, totalValueUsd = 1, txCount = 1, sentCount = 1,
       receivedCount = 0, chains = [''eth-mainnet''], primaryChain = ''eth-mainnet'',
       firstInteraction = ''2024-01-02'', lastInteraction = ''2024-01-02''\<rparr>]"
proof -
  have "map (\<lambda>ke. toInteraction (snd ke)) (buildMap ''0xab'' [] example_transactions)
      = map toInteraction (map snd (buildMap ''0xab'' [] example_transactions))"
    by simp
  then show ?thesis
    by (simp only: buildInteractions_def Let_def lower_examples example_entries)
       (simp add: toInteraction_def primaryChainOf_def byTxCountDesc_def)
qed

text \<open>
  C9. \<open>buildInteractions\<close> returns at most 20 records, in descending order of
  txCount. The ships one body contributes are exactly \<open>min(sentCount, 3)\<close> outbound and
  \<open>min(receivedCount, 3)\<close> inbound ones, at most 6; \<open>createShips\<close> is the
  concatenation of these contributions, body by body, so it holds at most 6 ships for
  each body, and at most 120 for the bodies made from \<open>buildInteractions\<close>.
\<close>

theorem bodies_and_ships_capped:
  "length (buildInteractions wallet txs) \<le> 20
   \<and> sorted (rev (map txCount (buildInteractions wallet txs)))
   \<and> length (filter (\<lambda>s. direction s = outbound) (shipsOfPlanet rnd gt cx cy rng k p))
       = min (sentCount (interaction p)) 3
   \<and> length (filter (\<lambda>s. direction s = inbound) (shipsOfPlanet rnd gt cx cy rng k p))
       = min (receivedCount (interaction p)) 3
   \<and> length (shipsOfPlanet rnd gt cx cy rng k p) \<le> 6
   \<and> (\<exists>ks. length ks = length ps \<and>
         createShips rnd gt ps cx cy rng
           = concat (map (\<lambda>kp. shipsOfPlanet rnd gt cx cy rng (fst kp) (snd kp)) (zip ks ps)))
   \<and> length (filter (\<lambda>s. direction s = outbound) (createShips rnd gt ps cx cy rng))
       = (\<Sum>p\<leftarrow>ps. min (sentCount (interaction p)) 3)
   \<and> length (filter (\<lambda>s. direction s = inbound) (createShips rnd gt ps cx cy rng))
       = (\<Sum>p\<leftarrow>ps. min (receivedCount (interaction p)) 3)
   \<and> length (createShips rnd gt ps cx cy rng) \<le> 6 * length ps
   \<and> length (createShips rnd gt
         (createPlanets rnd' (buildInteractions wallet txs) cx cy wd h) cx cy rng) \<le> 120"
proof -
  have block: "length (shipsOfPlanet rnd gt cx cy rng k p) \<le> 6"
    by (simp add: shipsOfPlanet_counts)
  have parts: "\<exists>ks. length ks = length ps \<and>
         createShips rnd gt ps cx cy rng
           = concat (map (\<lambda>kp. shipsOfPlanet rnd gt cx cy rng (fst kp) (snd kp)) (zip ks ps))"
    unfolding createShips_def by (rule createShips_loop_concat)
  have "length (createShips rnd gt
         (createPlanets rnd' (buildInteractions wallet txs) cx cy wd h) cx cy rng)
      \<le> 6 * length (buildInteractions wallet txs)"
    using createShips_loop_bound [of rnd gt cx cy rng 0
        "createPlanets rnd' (buildInteractions wallet txs) cx cy wd h"]
    by (simp add: createShips_def createPlanets_length)
  also have "\<dots> \<le> 6 * 20"
    using buildInteractions_capped [of wallet txs] by simp
  finally have total: "length (createShips rnd gt
         (createPlanets rnd' (buildInteractions wallet txs) cx cy wd h) cx cy rng) \<le> 120"
    by simp
  have dirs: "length (filter (\<lambda>s. direction s = outbound) (createShips rnd gt ps cx cy rng))
       = (\<Sum>p\<leftarrow>ps. min (sentCount (interaction p)) 3)"
    "length (filter (\<lambda>s. direction s = inbound) (createShips rnd gt ps cx cy rng))
       = (\<Sum>p\<leftarrow>ps. min (receivedCount (interaction p)) 3)"
    by (simp_all add: createShips_def createShips_loop_directions)
  have bound: "length (createShips rnd gt ps cx cy rng) \<le> 6 * length ps"
    by (simp add: createShips_def createShips_loop_bound)
  from block parts total dirs bound show ?thesis
    by (simp only: buildInteractions_capped buildInteractions_descending
        shipsOfPlanet_counts(1,2) simp_thms)
qed

theorem bodies_and_ships_capped_witness:
  "map txCount (buildInteractions ''0xAb'' example_transactions) = [2, 1]
   \<and> sorted (rev (map txCount (buildInteractions ''0xAb'' example_transactions)))
   \<and> length (filter (\<lambda>s. direction s = outbound)
        (createShips zero_draws epoch [sender_a, sender_b] 400 300 None)) = 3
   \<and> length (createShips zero_draws epoch [sender_a, sender_b] 400 300 None) \<le> 12"
  using bodies_and_ships_capped [of "''0xAb''" example_transactions zero_draws epoch 400 300 None
      0 sender_a "[sender_a, sender_b]" zero_draws 800 600]
  by (simp add: example_built sender_a_def sender_b_def example_interactions_def)

end
